theory Spec2Isabelle
  imports Complex_Main "HOL-Library.Word" "HOL-Library.Log_Nat" "HOL-Library.Sublist"
begin

section \<open>JavaScript values used by the program\<close>

subsection \<open>Strings\<close>

text \<open>
  A JavaScript string is a sequence of 16-bit UTF-16 code units. The source is in
  Unicode normalisation form C, so each Vietnamese letter of its string literals is one
  code unit; such a code unit is written as a numeral, the ASCII stretches of a literal
  through \<open>ascii\<close>.
\<close>

type_synonym jschar = "16 word"
type_synonym jsstring = "jschar list"

definition ascii :: "string \<Rightarrow> jsstring" where
  "ascii s = map (\<lambda>c. of_nat (of_char c)) s"

text \<open>\<open>s.startsWith(t)\<close> and \<open>s.includes(t)\<close>.\<close>

fun String_startsWith :: "'a list \<Rightarrow> 'a list \<Rightarrow> bool" where
  "String_startsWith s [] = True"
| "String_startsWith [] (b # t) = False"
| "String_startsWith (a # s) (b # t) = (a = b \<and> String_startsWith s t)"

fun String_includes :: "'a list \<Rightarrow> 'a list \<Rightarrow> bool" where
  "String_includes [] t = (t = [])"
| "String_includes (a # s) t = (String_startsWith (a # s) t \<or> String_includes s t)"

text \<open>
  \<open>s.trim()\<close> removes the code units of ECMAScript's WhiteSpace and LineTerminator
  productions from both ends.
\<close>

definition isWhiteSpace :: "jschar \<Rightarrow> bool" where
  "isWhiteSpace c \<longleftrightarrow>
     c \<in> set [0x0009, 0x000A, 0x000B, 0x000C, 0x000D, 0x0020, 0x00A0, 0x1680,
               0x2000, 0x2001, 0x2002, 0x2003, 0x2004, 0x2005, 0x2006, 0x2007,
               0x2008, 0x2009, 0x200A, 0x2028, 0x2029, 0x202F, 0x205F, 0x3000, 0xFEFF]"

definition String_trim :: "jsstring \<Rightarrow> jsstring" where
  "String_trim s = rev (dropWhile isWhiteSpace (rev (dropWhile isWhiteSpace s)))"



text \<open>\<open>a.findIndex(p)\<close>; the source's \<open>-1\<close> is \<open>None\<close>.\<close>

fun Array_findIndex :: "('a \<Rightarrow> bool) \<Rightarrow> 'a list \<Rightarrow> nat option" where
  "Array_findIndex p [] = None"
| "Array_findIndex p (x # xs) =
     (if p x then Some 0 else map_option Suc (Array_findIndex p xs))"

text \<open>
  \<open>toUpperCase\<close> and \<open>toLowerCase\<close> are the Unicode case mappings of the JavaScript
  runtime. Their tables are not part of the repository, so every function below that
  calls one of them takes it as a parameter (\<open>upper\<close>, \<open>lower\<close>) of type
  \<open>jsstring \<Rightarrow> jsstring\<close>. On strings of ASCII code units the runtime's mappings are the
  following two, which serve as the concrete instance wherever one is evaluated.
\<close>

definition toLowerCase_ascii :: "jsstring \<Rightarrow> jsstring" where
  "toLowerCase_ascii s = map (\<lambda>c. if 0x41 \<le> c \<and> c \<le> 0x5A then c + 0x20 else c) s"


subsection \<open>Error objects\<close>

text \<open>
  The values thrown and caught are \<open>Error\<close> objects: a name and a message.
  \<open>new Error(m)\<close> has the name \<open>Error\<close>; \<open>toString\<close> is \<open>Error.prototype.toString\<close>.
\<close>

datatype thrown = JsError (name: jsstring) (message: jsstring)

definition new_Error :: "jsstring \<Rightarrow> thrown" where
  "new_Error m = JsError (ascii ''Error'') m"

definition toString :: "thrown \<Rightarrow> jsstring" where
  "toString e =
     (if name e = [] then message e
      else if message e = [] then name e
      else name e @ ascii '': '' @ message e)"

subsection \<open>Numbers\<close>

text \<open>
  A JavaScript number is an IEEE 754 binary64 value. The finite ones are modelled as the
  reals they denote, and an arithmetic operation as the exact operation followed by
  rounding to the nearest binary64 value, ties to the even significand. \<open>exponent x\<close> is
  the binary exponent of a positive \<open>x\<close>, \<open>quantum x\<close> the spacing of the binary64
  values around it (53 significant bits, subnormals below \<open>2\<^sup>-\<^sup>1\<^sup>0\<^sup>2\<^sup>2\<close>). Overflow to
  infinity is not modelled; no value of the program comes near it.
\<close>

definition roundTiesToEven :: "real \<Rightarrow> int" where
  "roundTiesToEven y =
     (let f = \<lfloor>y\<rfloor>; d = y - of_int f
      in if d < 1 / 2 then f else if 1 / 2 < d then f + 1
         else if even f then f else f + 1)"

definition exponent :: "real \<Rightarrow> int" where
  "exponent x = (if 1 \<le> x then bitlen \<lfloor>x\<rfloor> - 1 else - bitlen (\<lceil>1 / x\<rceil> - 1))"

definition quantum :: "real \<Rightarrow> real" where
  "quantum x =
     (let e = max (exponent x) (- 1022)
      in if 52 \<le> e then 2 ^ nat (e - 52) else 1 / 2 ^ nat (52 - e))"

definition binary64 :: "real \<Rightarrow> real" where
  "binary64 x =
     (if x = 0 then 0
      else sgn x * (of_int (roundTiesToEven (\<bar>x\<bar> / quantum \<bar>x\<bar>)) * quantum \<bar>x\<bar>))"

definition js_times :: "real \<Rightarrow> real \<Rightarrow> real" where
  "js_times x y = binary64 (x * y)"

definition js_plus :: "real \<Rightarrow> real \<Rightarrow> real" where
  "js_plus x y = binary64 (x + y)"

section \<open>The AI service: retrying remote calls\<close>

text \<open>
  \<open>getAIClient\<close> reads the key from the environment (\<open>None\<close> is \<open>undefined\<close>) and throws
  when it is falsy, that is undefined or empty.
\<close>

datatype ai_client = GoogleGenAI (client_apiKey: jsstring)

definition getAIClient :: "jsstring option \<Rightarrow> thrown + ai_client" where
  "getAIClient apiKey =
     (case apiKey of
        None \<Rightarrow> Inl (new_Error (ascii ''API key not configured.''))
      | Some k \<Rightarrow>
          if k = [] then Inl (new_Error (ascii ''API key not configured.''))
          else Inr (GoogleGenAI k))"

definition MAX_RETRIES :: nat where
  "MAX_RETRIES = 8"

definition INITIAL_BACKOFF_MS :: real where
  "INITIAL_BACKOFF_MS = 2000"

text \<open>
  The effects of a call are explicit in a state: the state of the remote side, which an
  invocation of the request function reads and changes, the number of invocations made,
  and the delays handed to \<open>setTimeout\<close> and awaited, in order.
\<close>

record 's io =
  remote :: 's
  invocations :: nat
  waits :: "real list"

text \<open>
  Line 28 and 29: the error's text, lower-cased, is searched for three markers. For an
  \<open>Error\<close> object \<open>error?.toString() ?? ''\<close> is the object's \<open>toString()\<close>.
\<close>

definition isRateLimitError :: "(jsstring \<Rightarrow> jsstring) \<Rightarrow> thrown \<Rightarrow> bool" where
  "isRateLimitError lower error =
     (let errorString = lower (toString error)
      in String_includes errorString (ascii ''429'')
         \<or> String_includes errorString (ascii ''resource_exhausted'')
         \<or> String_includes errorString (ascii ''quota''))"

text \<open>
  Line 33: \<open>INITIAL_BACKOFF_MS * Math.pow(2, i) + Math.random() * 1000\<close>, where \<open>r\<close> is
  the value \<open>Math.random()\<close> returned. \<open>Math.pow(2, i)\<close> is the exact power for the
  indices of the loop.
\<close>

definition backoff_delay :: "nat \<Rightarrow> real \<Rightarrow> real" where
  "backoff_delay i r = js_plus (js_times INITIAL_BACKOFF_MS (2 ^ i)) (js_times r 1000)"

definition overload_error :: thrown where
  "overload_error = new_Error
     (ascii ''H'' @ [0x1EC7] @ ascii '' th'' @ [0x1ED1] @ ascii ''ng AI '' @ [0x0111]
      @ ascii ''ang t'' @ [0x1EA1] @ ascii ''m th'' @ [0x1EDD] @ ascii ''i qu'' @ [0x00E1]
      @ ascii '' t'' @ [0x1EA3] @ ascii ''i. Vui l'' @ [0x00F2] @ ascii ''ng th'' @ [0x1EED]
      @ ascii '' l'' @ [0x1EA1] @ ascii ''i sau '' @ [0x00ED] @ ascii ''t ph'' @ [0x00FA]
      @ ascii ''t.'')"

text \<open>
  The loop of \<open>callGeminiWithRetry\<close> from index \<open>i\<close>. \<open>random i\<close> is the value
  \<open>Math.random()\<close> returns in iteration \<open>i\<close>; \<open>requestFn\<close> is the request function, a
  transition of the remote state that resolves (\<open>Inr\<close>) or rejects (\<open>Inl\<close>).
\<close>

function retry_loop ::
  "(jsstring \<Rightarrow> jsstring) \<Rightarrow> (nat \<Rightarrow> real) \<Rightarrow> ('s \<Rightarrow> (thrown + 'a) \<times> 's) \<Rightarrow> nat \<Rightarrow> 's io
   \<Rightarrow> (thrown + 'a) \<times> 's io" where
  "retry_loop lower random requestFn i st =
     (if i < MAX_RETRIES then
        (case requestFn (remote st) of
           (Inr response, s') \<Rightarrow>
             (Inr response, st\<lparr>remote := s', invocations := invocations st + 1\<rparr>)
         | (Inl error, s') \<Rightarrow>
             (let st1 = st\<lparr>remote := s', invocations := invocations st + 1\<rparr>
              in if isRateLimitError lower error then
                   (if i < MAX_RETRIES - 1 then
                      retry_loop lower random requestFn (i + 1)
                        (st1\<lparr>waits := waits st1 @ [backoff_delay i (random i)]\<rparr>)
                    else retry_loop lower random requestFn (i + 1) st1)
                 else (Inl error, st1)))
      else (Inl overload_error, st))"
  by pat_completeness auto
termination
  by (relation "measure (\<lambda>(lower, random, requestFn, i, st). MAX_RETRIES - i)") auto

definition callGeminiWithRetry ::
  "(jsstring \<Rightarrow> jsstring) \<Rightarrow> (nat \<Rightarrow> real) \<Rightarrow> ('s \<Rightarrow> (thrown + 'a) \<times> 's) \<Rightarrow> 's io
   \<Rightarrow> (thrown + 'a) \<times> 's io" where
  "callGeminiWithRetry lower random requestFn st = retry_loop lower random requestFn 0 st"

declare retry_loop.simps [simp del]

text \<open>The state in which a call starts: nothing invoked, nothing waited.\<close>

definition fresh_io :: "'s \<Rightarrow> 's io" where
  "fresh_io s = \<lparr>remote = s, invocations = 0, waits = []\<rparr>"

section \<open>The AI service: pipeline stages\<close>

datatype DocumentType = TTr | CV | QD | BC | TB

text \<open>
  The request a stage hands to \<open>ai.models.generateContent\<close> is made of constants of the
  stage (the model name, the system instruction, the temperature, the response schema,
  the fixed words of the prompt) and of the values its caller supplied. A request is
  written as the stage it belongs to and the caller's values, in the order of the stage's
  parameters; the constants, on which no branch of the code depends, are not spelled out.
  The remote model is a parameter \<open>generateContent\<close>: given the client and the request,
  a transition of the remote state that resolves with a response or rejects.
\<close>

datatype request =
    GenerateDraftRequest jsstring jsstring DocumentType jsstring jsstring jsstring
  | FormalizeRequest jsstring
  | SuggestFormattingRequest jsstring
  | ProofreadRequest jsstring
  | ExtractTextRequest jsstring jsstring
  | AnalyzeRequest jsstring jsstring jsstring jsstring jsstring

record response =
  response_text :: jsstring

type_synonym 's generateContent = "ai_client \<Rightarrow> request \<Rightarrow> 's \<Rightarrow> (thrown + response) \<times> 's"

text \<open>The handlers \<open>throw new Error(error.message || fallback)\<close>.\<close>

definition rethrow :: "jsstring \<Rightarrow> thrown \<Rightarrow> thrown" where
  "rethrow fallback error = new_Error (if message error = [] then fallback else message error)"

definition generate_fallback :: jsstring where
  "generate_fallback =
     ascii ''AI kh'' @ [0x00F4] @ ascii ''ng th'' @ [0x1EC3] @ ascii '' t'' @ [0x1EA1]
     @ ascii ''o n'' @ [0x1ED9] @ ascii ''i dung. Vui l'' @ [0x00F2] @ ascii ''ng th'' @ [0x1EED]
     @ ascii '' l'' @ [0x1EA1] @ ascii ''i v'' @ [0x1EDB] @ ascii ''i y'' @ [0x00EA]
     @ ascii ''u c'' @ [0x1EA7] @ ascii ''u r'' @ [0x00F5] @ ascii '' r'' @ [0x00E0]
     @ ascii ''ng h'' @ [0x01A1] @ ascii ''n.''"

definition formalize_fallback :: jsstring where
  "formalize_fallback =
     ascii ''Kh'' @ [0x00F4] @ ascii ''ng th'' @ [0x1EC3] @ ascii '' '' @ [0x0111, 0x1ECB]
     @ ascii ''nh d'' @ [0x1EA1] @ ascii ''ng n'' @ [0x1ED9] @ ascii ''i dung t'' @ [0x1EEB]
     @ ascii '' AI.''"

definition proofread_fallback :: jsstring where
  "proofread_fallback =
     ascii ''Kh'' @ [0x00F4] @ ascii ''ng th'' @ [0x1EC3] @ ascii '' ki'' @ [0x1EC3]
     @ ascii ''m tra ch'' @ [0x00ED] @ ascii ''nh t'' @ [0x1EA3] @ ascii '' & ng'' @ [0x1EEF]
     @ ascii '' ph'' @ [0x00E1] @ ascii ''p b'' @ [0x1EB1] @ ascii ''ng AI.''"

definition extract_fallback :: jsstring where
  "extract_fallback =
     ascii ''Kh'' @ [0x00F4] @ ascii ''ng th'' @ [0x1EC3] @ ascii '' tr'' @ [0x00ED]
     @ ascii ''ch xu'' @ [0x1EA5] @ ascii ''t v'' @ [0x0103] @ ascii ''n b'' @ [0x1EA3]
     @ ascii ''n t'' @ [0x1EEB] @ ascii '' h'' @ [0x00EC] @ ascii ''nh '' @ [0x1EA3]
     @ ascii ''nh.''"

definition analyze_fallback :: jsstring where
  "analyze_fallback =
     ascii ''Kh'' @ [0x00F4] @ ascii ''ng th'' @ [0x1EC3] @ ascii '' ph'' @ [0x00E2]
     @ ascii ''n t'' @ [0x00ED] @ ascii ''ch v'' @ [0x0103] @ ascii ''n b'' @ [0x1EA3]
     @ ascii ''n.''"

text \<open>
  Each stage takes the client before its \<open>try\<close> block, so that a missing key is thrown to
  the caller as it is, and makes the remote call inside the block. \<open>JSON_parse\<close> is the
  runtime's \<open>JSON.parse\<close>, a parameter.
\<close>

definition generateDocumentContentWithAI ::
  "(jsstring \<Rightarrow> jsstring) \<Rightarrow> (nat \<Rightarrow> real) \<Rightarrow> jsstring option \<Rightarrow> 's generateContent
   \<Rightarrow> (jsstring \<Rightarrow> thrown + 'j)
   \<Rightarrow> jsstring \<Rightarrow> jsstring \<Rightarrow> DocumentType \<Rightarrow> jsstring \<Rightarrow> jsstring \<Rightarrow> jsstring \<Rightarrow> 's io
   \<Rightarrow> (thrown + 'j) \<times> 's io" where
  "generateDocumentContentWithAI lower random apiKey generateContent JSON_parse
       purpose data docType field tone detail st =
     (case getAIClient apiKey of
        Inl e \<Rightarrow> (Inl e, st)
      | Inr ai \<Rightarrow>
          (case callGeminiWithRetry lower random
                  (generateContent ai
                     (GenerateDraftRequest purpose data docType field tone detail)) st of
             (Inr response, st') \<Rightarrow>
               (case JSON_parse (String_trim (response_text response)) of
                  Inr parsedResult \<Rightarrow> (Inr parsedResult, st')
                | Inl error \<Rightarrow> (Inl (rethrow generate_fallback error), st'))
           | (Inl error, st') \<Rightarrow> (Inl (rethrow generate_fallback error), st')))"

definition formalizeContentWithAI ::
  "(jsstring \<Rightarrow> jsstring) \<Rightarrow> (nat \<Rightarrow> real) \<Rightarrow> jsstring option \<Rightarrow> 's generateContent
   \<Rightarrow> jsstring \<Rightarrow> 's io \<Rightarrow> (thrown + jsstring) \<times> 's io" where
  "formalizeContentWithAI lower random apiKey generateContent rawContent st =
     (case getAIClient apiKey of
        Inl e \<Rightarrow> (Inl e, st)
      | Inr ai \<Rightarrow>
          (case callGeminiWithRetry lower random
                  (generateContent ai (FormalizeRequest rawContent)) st of
             (Inr response, st') \<Rightarrow> (Inr (response_text response), st')
           | (Inl error, st') \<Rightarrow> (Inl (rethrow formalize_fallback error), st')))"

text \<open>The handler of this stage returns the stage's input instead of throwing.\<close>

definition suggestFormattingWithAI ::
  "(jsstring \<Rightarrow> jsstring) \<Rightarrow> (nat \<Rightarrow> real) \<Rightarrow> jsstring option \<Rightarrow> 's generateContent
   \<Rightarrow> jsstring \<Rightarrow> 's io \<Rightarrow> (thrown + jsstring) \<times> 's io" where
  "suggestFormattingWithAI lower random apiKey generateContent processedContent st =
     (case getAIClient apiKey of
        Inl e \<Rightarrow> (Inl e, st)
      | Inr ai \<Rightarrow>
          (case callGeminiWithRetry lower random
                  (generateContent ai (SuggestFormattingRequest processedContent)) st of
             (Inr response, st') \<Rightarrow> (Inr (response_text response), st')
           | (Inl error, st') \<Rightarrow> (Inr processedContent, st')))"

definition proofreadWithAI ::
  "(jsstring \<Rightarrow> jsstring) \<Rightarrow> (nat \<Rightarrow> real) \<Rightarrow> jsstring option \<Rightarrow> 's generateContent
   \<Rightarrow> jsstring \<Rightarrow> 's io \<Rightarrow> (thrown + jsstring) \<times> 's io" where
  "proofreadWithAI lower random apiKey generateContent rawContent st =
     (case getAIClient apiKey of
        Inl e \<Rightarrow> (Inl e, st)
      | Inr ai \<Rightarrow>
          (case callGeminiWithRetry lower random
                  (generateContent ai (ProofreadRequest rawContent)) st of
             (Inr response, st') \<Rightarrow> (Inr (String_trim (response_text response)), st')
           | (Inl error, st') \<Rightarrow> (Inl (rethrow proofread_fallback error), st')))"

definition extractTextFromImage ::
  "(jsstring \<Rightarrow> jsstring) \<Rightarrow> (nat \<Rightarrow> real) \<Rightarrow> jsstring option \<Rightarrow> 's generateContent
   \<Rightarrow> jsstring \<Rightarrow> jsstring \<Rightarrow> 's io \<Rightarrow> (thrown + jsstring) \<times> 's io" where
  "extractTextFromImage lower random apiKey generateContent base64Image mimeType st =
     (case getAIClient apiKey of
        Inl e \<Rightarrow> (Inl e, st)
      | Inr ai \<Rightarrow>
          (case callGeminiWithRetry lower random
                  (generateContent ai (ExtractTextRequest base64Image mimeType)) st of
             (Inr response, st') \<Rightarrow> (Inr (response_text response), st')
           | (Inl error, st') \<Rightarrow> (Inl (rethrow extract_fallback error), st')))"

definition analyzeText ::
  "(jsstring \<Rightarrow> jsstring) \<Rightarrow> (nat \<Rightarrow> real) \<Rightarrow> jsstring option \<Rightarrow> 's generateContent
   \<Rightarrow> jsstring \<Rightarrow> jsstring \<Rightarrow> jsstring \<Rightarrow> jsstring \<Rightarrow> jsstring \<Rightarrow> 's io
   \<Rightarrow> (thrown + jsstring) \<times> 's io" where
  "analyzeText lower random apiKey generateContent documentText userPrompt field tone detail st =
     (case getAIClient apiKey of
        Inl e \<Rightarrow> (Inl e, st)
      | Inr ai \<Rightarrow>
          (case callGeminiWithRetry lower random
                  (generateContent ai
                     (AnalyzeRequest documentText userPrompt field tone detail)) st of
             (Inr response, st') \<Rightarrow> (Inr (response_text response), st')
           | (Inl error, st') \<Rightarrow> (Inl (rethrow analyze_fallback error), st')))"

section \<open>The document and its editing\<close>

record Page =
  page_id :: jsstring
  rawContent :: jsstring
  processedContent :: jsstring
  formattedContent :: jsstring

text \<open>A \<open>Date\<close> is its time value in milliseconds, \<open>None\<close> for an invalid date.\<close>

type_synonym js_date = "int option"

record DocumentData =
  documentType :: DocumentType
  issuingAuthority :: jsstring
  issuingAuthorityFull :: jsstring
  abstract :: jsstring
  subject :: jsstring
  pages :: "Page list"
  recipients :: jsstring
  signerTitle :: jsstring
  signerName :: jsstring
  place :: jsstring
  date :: js_date









text \<open>
  The handlers that change one page copy the array and assign
  \<open>newPages[index] = {...newPages[index], ...}\<close>. For an index within the array this
  replaces the page. For an index beyond it JavaScript grows the array, leaving holes
  and a page without an identifier, which is no value of \<open>Page[]\<close>: the model has no
  result there.
\<close>

definition assignPage :: "nat \<Rightarrow> (Page \<Rightarrow> Page) \<Rightarrow> DocumentData \<Rightarrow> DocumentData option" where
  "assignPage index f prev =
     (if index < length (pages prev)
      then Some (prev\<lparr>pages := (pages prev)[index := f (pages prev ! index)]\<rparr>)
      else None)"

definition handlePageContentChange :: "nat \<Rightarrow> jsstring \<Rightarrow> DocumentData \<Rightarrow> DocumentData option" where
  "handlePageContentChange index newRawContent prev =
     assignPage index
       (\<lambda>page. page\<lparr>rawContent := newRawContent, processedContent := [], formattedContent := []\<rparr>)
       prev"

text \<open>
  \<open>handleAddPage\<close> appends an empty page whose identifier is made of the clock reading
  \<open>Date.now()\<close>, here the text \<open>now\<close>; \<open>handleRemovePage\<close> filters the page of the index
  out.
\<close>

definition handleAddPage :: "jsstring \<Rightarrow> DocumentData \<Rightarrow> DocumentData" where
  "handleAddPage now prev =
     prev\<lparr>pages := pages prev
            @ [\<lparr>page_id = ascii ''page-'' @ now, rawContent = [], processedContent = [],
                formattedContent = []\<rparr>]\<rparr>"

definition handleRemovePage :: "nat \<Rightarrow> DocumentData \<Rightarrow> DocumentData" where
  "handleRemovePage index prev =
     prev\<lparr>pages := take index (pages prev) @ drop (Suc index) (pages prev)\<rparr>"

section \<open>The debounced page-processing effect\<close>

text \<open>
  JavaScript runs one event at a time. The events that matter to the effect are: an edit
  of a page, the adding and the removing of a page, a change of tab, the debounce timer
  firing, and the settling of the promise an asynchronous timer callback is suspended at.
  The state holds what the component holds (the tab, the document, the index of the page
  shown as being processed), whether the debounce timer is pending, and the callbacks
  that have started and are suspended at an \<open>await\<close>, each with the page index it
  captured. The processing message and the state of
  the proofreading and drafting buttons are left out, as nothing here reads them, and so
  are the two handlers behind those buttons, which change pages as an edit does.
\<close>

datatype Tab = Draft | Analyze

datatype awaiting = Formalize | SuggestFormatting

record callback =
  pageToProcessIndex :: nat
  suspended_at :: awaiting

record App =
  activeTab :: Tab
  docData :: DocumentData
  processingPageIndex :: "nat option"
  debounce_pending :: bool
  running :: "callback list"

text \<open>
  The effect depends on the pages and the tab. When either changes, its cleanup clears
  the timer and its body sets a new one of 1500 ms, on the draft tab only.
\<close>

definition effect :: "App \<Rightarrow> App" where
  "effect app = app\<lparr>debounce_pending := (activeTab app = Draft)\<rparr>"

text \<open>\<open>setDocData\<close> with a new array of pages, and the effect that follows.\<close>

definition setPage :: "nat \<Rightarrow> (Page \<Rightarrow> Page) \<Rightarrow> App \<Rightarrow> App option" where
  "setPage index f app =
     (case assignPage index f (docData app) of
        None \<Rightarrow> None
      | Some d \<Rightarrow> Some (effect (app\<lparr>docData := d\<rparr>)))"

text \<open>The page a cycle picks: \<open>p.rawContent.trim() && !p.processedContent\<close>.\<close>

definition needs_processing :: "Page \<Rightarrow> bool" where
  "needs_processing p \<longleftrightarrow> String_trim (rawContent p) \<noteq> [] \<and> processedContent p = []"

definition processing_failed :: jsstring where
  "processing_failed =
     ascii ''L'' @ [0x1ED7] @ ascii ''i: Kh'' @ [0x00F4] @ ascii ''ng th'' @ [0x1EC3]
     @ ascii '' x'' @ [0x1EED] @ ascii '' l'' @ [0x00FD] @ ascii '' n'' @ [0x1ED9]
     @ ascii ''i dung. Vui l'' @ [0x00F2] @ ascii ''ng th'' @ [0x1EED] @ ascii '' l'' @ [0x1EA1]
     @ ascii ''i.''"

text \<open>The \<open>finally\<close> block, reached when callback \<open>k\<close> ends.\<close>

definition finish :: "nat \<Rightarrow> App \<Rightarrow> App" where
  "finish k app =
     app\<lparr>processingPageIndex := None, running := take k (running app) @ drop (Suc k) (running app)\<rparr>"

text \<open>The \<open>catch\<close> block of callback \<open>k\<close>, which was processing page \<open>i\<close>.\<close>

definition failed :: "nat \<Rightarrow> nat \<Rightarrow> App \<Rightarrow> App option" where
  "failed k i app =
     map_option (finish k)
       (setPage i (\<lambda>p. p\<lparr>processedContent := processing_failed, formattedContent := []\<rparr>) app)"

datatype event =
    Edit nat jsstring
  | AddPage jsstring
  | RemovePage nat
  | SwitchTab Tab
  | Timeout
  | FormalizeSettled nat "thrown + jsstring"
  | SuggestFormattingSettled nat "thrown + jsstring"

text \<open>
  One event; \<open>None\<close> when the event cannot happen in the state (no timer pending, no such
  callback suspended there) or assigns a page beyond the array. \<open>in_flight\<close> lists the
  pages whose processing has started and not ended.
\<close>

fun step :: "event \<Rightarrow> App \<Rightarrow> App option" where
  "step (Edit index newRawContent) app =
     (case handlePageContentChange index newRawContent (docData app) of
        None \<Rightarrow> None
      | Some d \<Rightarrow> Some (effect (app\<lparr>docData := d\<rparr>)))"
| "step (AddPage now) app = Some (effect (app\<lparr>docData := handleAddPage now (docData app)\<rparr>))"
| "step (RemovePage index) app =
     Some (effect (app\<lparr>docData := handleRemovePage index (docData app)\<rparr>))"
| "step (SwitchTab tab) app =
     (if tab = activeTab app then Some app else Some (effect (app\<lparr>activeTab := tab\<rparr>)))"
| "step Timeout app =
     (if debounce_pending app then
        (case Array_findIndex needs_processing (pages (docData app)) of
           None \<Rightarrow> Some (app\<lparr>debounce_pending := False\<rparr>)
         | Some i \<Rightarrow>
             Some (app\<lparr>debounce_pending := False,
                       processingPageIndex := Some i,
                       running := running app
                                  @ [\<lparr>pageToProcessIndex = i, suspended_at = Formalize\<rparr>]\<rparr>))
      else None)"
| "step (FormalizeSettled k outcome) app =
     (if k < length (running app) \<and> suspended_at (running app ! k) = Formalize then
        (let i = pageToProcessIndex (running app ! k)
         in case outcome of
              Inr processedResult \<Rightarrow>
                map_option
                  (\<lambda>app1. app1\<lparr>running := (running app1)
                              [k := \<lparr>pageToProcessIndex = i, suspended_at = SuggestFormatting\<rparr>]\<rparr>)
                  (setPage i (\<lambda>p. p\<lparr>processedContent := processedResult,
                                      formattedContent := []\<rparr>) app)
            | Inl error \<Rightarrow> failed k i app)
      else None)"
| "step (SuggestFormattingSettled k outcome) app =
     (if k < length (running app) \<and> suspended_at (running app ! k) = SuggestFormatting then
        (let i = pageToProcessIndex (running app ! k)
         in case outcome of
              Inr formattedResult \<Rightarrow>
                map_option (finish k)
                  (setPage i (\<lambda>p. p\<lparr>formattedContent := formattedResult\<rparr>) app)
            | Inl error \<Rightarrow> failed k i app)
      else None)"

fun run :: "event list \<Rightarrow> App \<Rightarrow> App option" where
  "run [] app = Some app"
| "run (e # es) app = (case step e app of None \<Rightarrow> None | Some app1 \<Rightarrow> run es app1)"

definition in_flight :: "App \<Rightarrow> nat list" where
  "in_flight app = map pageToProcessIndex (running app)"

section \<open>The list of uploaded files\<close>

datatype file_status = Pending | Processing | Done | Failed

record 'f ProcessedFile =
  file_id :: jsstring
  file_blob :: 'f
  thumbnail :: jsstring
  content :: jsstring
  status :: file_status
  error_text :: "jsstring option"

definition removeFile :: "jsstring \<Rightarrow> 'f ProcessedFile list \<Rightarrow> 'f ProcessedFile list" where
  "removeFile removed_id prev = filter (\<lambda>f. file_id f \<noteq> removed_id) prev"

section \<open>Sample inputs\<close>

text \<open>
  Concrete operations and random sources at which the theorems below are evaluated. The
  remote state of the sample operations is the number of invocations they have answered.
\<close>

definition error_429 :: thrown where
  "error_429 = JsError (ascii ''ApiError'') (ascii ''got status: 429 Too Many Requests'')"

definition error_503 :: thrown where
  "error_503 = JsError (ascii ''ApiError'') (ascii ''got status: 503 Service Unavailable'')"

definition always_rate_limited :: "nat \<Rightarrow> (thrown + response) \<times> nat" where
  "always_rate_limited n = (Inl error_429, n + 1)"

definition rate_limited_once :: "nat \<Rightarrow> (thrown + response) \<times> nat" where
  "rate_limited_once n =
     (if n = 0 then (Inl error_429, 1) else (Inr \<lparr>response_text = ascii ''ok''\<rparr>, n + 1))"

definition always_unavailable :: "nat \<Rightarrow> (thrown + response) \<times> nat" where
  "always_unavailable n = (Inl error_503, n + 1)"

definition random_zero :: "nat \<Rightarrow> real" where
  "random_zero i = 0"

definition random_top :: "nat \<Rightarrow> real" where
  "random_top i = 1 - 1 / 2 ^ 52"

definition model_unavailable :: "nat generateContent" where
  "model_unavailable ai req n = (Inl error_503, n + 1)"

definition model_answers :: "nat generateContent" where
  "model_answers ai req n = (Inr \<lparr>response_text = ascii '' Ok ''\<rparr>, n + 1)"

definition model_rate_limited :: "nat generateContent" where
  "model_rate_limited ai req = always_rate_limited"

definition model_rate_limited_once :: "nat generateContent" where
  "model_rate_limited_once ai req = rate_limited_once"

definition parse_as_text :: "jsstring \<Rightarrow> thrown + jsstring" where
  "parse_as_text s = Inr s"

definition sample_key :: jsstring where
  "sample_key = ascii ''key''"

definition page_a :: Page where
  "page_a = \<lparr>page_id = ascii ''page-1'', rawContent = ascii ''first'',
             processedContent = [], formattedContent = []\<rparr>"

definition page_b :: Page where
  "page_b = \<lparr>page_id = ascii ''page-2'', rawContent = ascii ''second'',
             processedContent = ascii ''Second.'', formattedContent = ascii ''**Second.**''\<rparr>"

definition sample_doc :: DocumentData where
  "sample_doc = \<lparr>documentType = TTr,
     issuingAuthority = ascii ''PHONG NGHIEN CUU'',
     issuingAuthorityFull = ascii ''Phong Nghien Cuu'',
     abstract = [],
     subject = ascii ''V/v'',
     pages = [page_a, page_b],
     recipients = ascii ''Nhu tren;'' @ [0x0A] @ ascii ''- L'' @ [0x01B0] @ ascii ''u: VT, PNC.'',
     signerTitle = ascii ''TRUONG PHONG'',
     signerName = ascii ''Nguyen Van A'',
     place = ascii ''Ha Noi'',
     date = Some 0\<rparr>"

definition file_a :: "unit ProcessedFile" where
  "file_a = \<lparr>file_id = ascii ''a'', file_blob = (), thumbnail = [], content = ascii ''one'',
             status = Done, error_text = None\<rparr>"

definition file_b :: "unit ProcessedFile" where
  "file_b = \<lparr>file_id = ascii ''b'', file_blob = (), thumbnail = [], content = [],
             status = Pending, error_text = None\<rparr>"

definition file_c :: "unit ProcessedFile" where
  "file_c = \<lparr>file_id = ascii ''c'', file_blob = (), thumbnail = [], content = [],
             status = Failed, error_text = Some (ascii ''unsupported'')\<rparr>"

definition one_page_app :: App where
  "one_page_app = \<lparr>activeTab = Draft, docData = sample_doc\<lparr>pages := [page_a]\<rparr>,
     processingPageIndex = None, debounce_pending = True, running = []\<rparr>"

definition processed_app :: App where
  "processed_app = \<lparr>activeTab = Draft, docData = sample_doc\<lparr>pages := [page_b]\<rparr>,
     processingPageIndex = None, debounce_pending = True, running = []\<rparr>"

definition overlapping_cycles :: "event list" where
  "overlapping_cycles =
     [AddPage (ascii ''1700000000000''), Edit 1 (ascii ''second''), Timeout,
      FormalizeSettled 0 (Inr (ascii ''First.'')), Timeout]"


section \<open>The retry wrapper: properties\<close>

lemma error_429_rate_limit: "isRateLimitError toLowerCase_ascii error_429"
  by code_simp

lemma error_503_pass_through: "\<not> isRateLimitError toLowerCase_ascii error_503"
  by code_simp


lemma retry_loop_done: "MAX_RETRIES \<le> i \<Longrightarrow> retry_loop lower random requestFn i st = (Inl overload_error, st)"
  by (subst retry_loop.simps) simp

lemma retry_loop_resolve:
  "i < MAX_RETRIES \<Longrightarrow> requestFn (remote st) = (Inr v, s') \<Longrightarrow>
   retry_loop lower random requestFn i st = (Inr v, st\<lparr>remote := s', invocations := invocations st + 1\<rparr>)"
  by (subst retry_loop.simps) simp

lemma retry_loop_pass:
  "i < MAX_RETRIES \<Longrightarrow> requestFn (remote st) = (Inl e, s') \<Longrightarrow> \<not> isRateLimitError lower e \<Longrightarrow>
   retry_loop lower random requestFn i st = (Inl e, st\<lparr>remote := s', invocations := invocations st + 1\<rparr>)"
  by (subst retry_loop.simps) simp

lemma retry_loop_retry:
  "i < MAX_RETRIES - 1 \<Longrightarrow> requestFn (remote st) = (Inl e, s') \<Longrightarrow> isRateLimitError lower e \<Longrightarrow>
   retry_loop lower random requestFn i st =
   retry_loop lower random requestFn (i + 1)
     (st\<lparr>remote := s', invocations := invocations st + 1, waits := waits st @ [backoff_delay i (random i)]\<rparr>)"
  by (subst retry_loop.simps) auto

lemma retry_loop_last:
  "i = MAX_RETRIES - 1 \<Longrightarrow> requestFn (remote st) = (Inl e, s') \<Longrightarrow> isRateLimitError lower e \<Longrightarrow>
   retry_loop lower random requestFn i st =
   retry_loop lower random requestFn (i + 1) (st\<lparr>remote := s', invocations := invocations st + 1\<rparr>)"
  by (subst retry_loop.simps) (simp add: MAX_RETRIES_def)

lemma retry_loop_exhausted:
  assumes "\<forall>s. \<exists>e s'. requestFn s = (Inl e, s') \<and> isRateLimitError lower e"
  shows "i \<le> MAX_RETRIES \<Longrightarrow>
     retry_loop lower random requestFn i st
     = (Inl overload_error,
        st\<lparr>remote := ((snd \<circ> requestFn) ^^ (MAX_RETRIES - i)) (remote st),
           invocations := invocations st + (MAX_RETRIES - i),
           waits := waits st @ map (\<lambda>j. backoff_delay j (random j)) [i ..< MAX_RETRIES - 1]\<rparr>)"
proof (induction "MAX_RETRIES - i" arbitrary: i st)
  case 0
  then have "i = MAX_RETRIES" by simp
  then show ?case by (simp add: retry_loop_done)
next
  case (Suc n)
  from assms obtain e s' where req: "requestFn (remote st) = (Inl e, s')"
    and rl: "isRateLimitError lower e"
    by blast
  from Suc.hyps(2) have n: "n = MAX_RETRIES - (i + 1)" "i + 1 \<le> MAX_RETRIES" by simp_all
  have pow: "((snd \<circ> requestFn) ^^ (MAX_RETRIES - i)) (remote st)
      = ((snd \<circ> requestFn) ^^ (MAX_RETRIES - (i + 1))) s'"
  proof -
    have "MAX_RETRIES - i = Suc (MAX_RETRIES - (i + 1))" using Suc.hyps(2) by simp
    then have "((snd \<circ> requestFn) ^^ (MAX_RETRIES - i)) (remote st)
        = ((snd \<circ> requestFn) ^^ (MAX_RETRIES - (i + 1))) ((snd \<circ> requestFn) (remote st))"
      by (simp only: funpow_Suc_right o_apply)
    then show ?thesis using req by simp
  qed
  have cnt: "invocations st + (MAX_RETRIES - i) = invocations st + 1 + (MAX_RETRIES - (i + 1))"
    using Suc.hyps(2) by simp
  show ?case
  proof (cases "i < MAX_RETRIES - 1")
    case True
    then have upt: "[i ..< MAX_RETRIES - 1] = i # [i + 1 ..< MAX_RETRIES - 1]"
      by (simp add: upt_conv_Cons)
    have "retry_loop lower random requestFn i st
        = retry_loop lower random requestFn (i + 1)
            (st\<lparr>remote := s', invocations := invocations st + 1,
                waits := waits st @ [backoff_delay i (random i)]\<rparr>)"
      using True req rl by (rule retry_loop_retry)
    also have "\<dots> = (Inl overload_error,
        st\<lparr>remote := ((snd \<circ> requestFn) ^^ (MAX_RETRIES - (i + 1))) s',
           invocations := invocations st + 1 + (MAX_RETRIES - (i + 1)),
           waits := waits st @ map (\<lambda>j. backoff_delay j (random j)) [i ..< MAX_RETRIES - 1]\<rparr>)"
      using Suc.hyps(1) [OF n, of "st\<lparr>remote := s', invocations := invocations st + 1,
          waits := waits st @ [backoff_delay i (random i)]\<rparr>"] upt
      by simp
    finally show ?thesis by (simp only: pow cnt)
  next
    case False
    with Suc.hyps(2) have i: "i = MAX_RETRIES - 1" by simp
    have "retry_loop lower random requestFn i st
        = retry_loop lower random requestFn (i + 1)
            (st\<lparr>remote := s', invocations := invocations st + 1\<rparr>)"
      using i req rl by (rule retry_loop_last)
    also have "\<dots> = (Inl overload_error, st\<lparr>remote := s', invocations := invocations st + 1\<rparr>)"
      using i by (simp add: retry_loop_done MAX_RETRIES_def)
    finally show ?thesis using i req by (simp add: MAX_RETRIES_def)
  qed
qed

lemma retry_loop_trace:
  "i < MAX_RETRIES \<Longrightarrow>
   \<exists>n. 1 \<le> n \<and> i + n \<le> MAX_RETRIES
     \<and> invocations (snd (retry_loop lower random requestFn i st)) = invocations st + n
     \<and> waits (snd (retry_loop lower random requestFn i st))
         = waits st @ map (\<lambda>j. backoff_delay j (random j)) [i ..< i + n - 1]"
proof (induction "MAX_RETRIES - i" arbitrary: i st)
  case 0
  then show ?case by simp
next
  case (Suc m)
  obtain r s' where req: "requestFn (remote st) = (r, s')" by (cases "requestFn (remote st)")
  show ?case
  proof (cases r)
    case (Inr v)
    with req Suc.prems have "retry_loop lower random requestFn i st
        = (Inr v, st\<lparr>remote := s', invocations := invocations st + 1\<rparr>)"
      by (simp add: retry_loop_resolve)
    with Suc.prems show ?thesis by (intro exI [of _ 1]) simp
  next
    case (Inl e)
    show ?thesis
    proof (cases "isRateLimitError lower e")
      case False
      with req Inl Suc.prems have "retry_loop lower random requestFn i st
        = (Inl e, st\<lparr>remote := s', invocations := invocations st + 1\<rparr>)"
        by (simp add: retry_loop_pass)
      with Suc.prems show ?thesis by (intro exI [of _ 1]) simp
    next
      case True
      show ?thesis
      proof (cases "i < MAX_RETRIES - 1")
        case False
        with Suc.prems have i: "i = MAX_RETRIES - 1" by simp
        with req Inl True have "retry_loop lower random requestFn i st
          = (Inl overload_error, st\<lparr>remote := s', invocations := invocations st + 1\<rparr>)"
          by (simp add: retry_loop_last retry_loop_done MAX_RETRIES_def)
        with Suc.prems show ?thesis by (intro exI [of _ 1]) simp
      next
        case lt: True
        let ?st1 = "st\<lparr>remote := s', invocations := invocations st + 1,
                        waits := waits st @ [backoff_delay i (random i)]\<rparr>"
        have eq: "retry_loop lower random requestFn i st = retry_loop lower random requestFn (i + 1) ?st1"
          using lt req Inl True by (simp add: retry_loop_retry)
        from lt Suc.hyps(2) have m: "m = MAX_RETRIES - (i + 1)" and i1: "i + 1 < MAX_RETRIES" by simp_all
        from Suc.hyps(1) [OF m i1, of ?st1] obtain n where n: "1 \<le> n" "i + 1 + n \<le> MAX_RETRIES"
          "invocations (snd (retry_loop lower random requestFn (i + 1) ?st1)) = invocations ?st1 + n"
          "waits (snd (retry_loop lower random requestFn (i + 1) ?st1))
             = waits ?st1 @ map (\<lambda>j. backoff_delay j (random j)) [i + 1 ..< i + 1 + n - 1]"
          by blast
        have "[i ..< i + (n + 1) - 1] = i # [i + 1 ..< i + 1 + n - 1]"
          using n(1) by (simp add: upt_conv_Cons)
        with n eq show ?thesis by (intro exI [of _ "n + 1"]) simp
      qed
    qed
  qed
qed

lemma roundTiesToEven_ge: "of_int m \<le> y \<Longrightarrow> m \<le> roundTiesToEven y"
proof -
  assume "of_int m \<le> y"
  then have "m \<le> \<lfloor>y\<rfloor>" by (simp add: le_floor_iff)
  then show ?thesis unfolding roundTiesToEven_def Let_def by auto
qed

lemma roundTiesToEven_le: "y \<le> of_int m \<Longrightarrow> roundTiesToEven y \<le> m"
proof (cases "y = of_int m")
  case True
  then show ?thesis unfolding roundTiesToEven_def Let_def by simp
next
  case False
  assume "y \<le> of_int m"
  with False have "y < of_int m" by simp
  then have "\<lfloor>y\<rfloor> < m" by (simp add: floor_less_iff)
  then show ?thesis unfolding roundTiesToEven_def Let_def by auto
qed

lemma exponent_le: "0 < x \<Longrightarrow> x < 2 ^ 53 \<Longrightarrow> exponent x \<le> 52"
proof -
  assume x: "0 < x" "x < 2 ^ 53"
  show ?thesis
  proof (cases "1 \<le> x")
    case True
    from x have "\<lfloor>x\<rfloor> < 2 ^ 53" by (simp add: floor_less_iff)
    then have "bitlen \<lfloor>x\<rfloor> \<le> 53" by (simp add: bitlen_le_iff_power)
    with True show ?thesis by (simp add: exponent_def)
  next
    case False
    have "0 \<le> bitlen (\<lceil>1 / x\<rceil> - 1)" by (rule bitlen_nonneg)
    with False show ?thesis by (simp add: exponent_def)
  qed
qed

lemma quantum_inverse_power: "0 < x \<Longrightarrow> x < 2 ^ 53 \<Longrightarrow> \<exists>n. quantum x = 1 / 2 ^ n"
proof -
  assume x: "0 < x" "x < 2 ^ 53"
  then have e: "exponent x \<le> 52" by (rule exponent_le)
  show ?thesis
  proof (cases "52 \<le> max (exponent x) (- 1022)")
    case True
    with e have "max (exponent x) (- 1022) = 52" by simp
    then have "quantum x = 1 / 2 ^ 0" by (simp add: quantum_def)
    then show ?thesis ..
  next
    case False
    then have "quantum x = 1 / 2 ^ nat (52 - max (exponent x) (- 1022))"
      by (simp add: quantum_def Let_def)
    then show ?thesis ..
  qed
qed

lemma binary64_bracket:
  assumes "of_int a \<le> x" "x \<le> of_int b" "0 \<le> a" "b < 2 ^ 53"
  shows "of_int a \<le> binary64 x \<and> binary64 x \<le> of_int b"
proof (cases "x = 0")
  case True
  with assms show ?thesis by (simp add: binary64_def)
next
  case False
  with assms have pos: "0 < x" by simp
  from assms have "x < 2 ^ 53"
  proof -
    have "(of_int b :: real) < of_int (2 ^ 53)" using assms(4) by (simp only: of_int_less_iff)
    with assms(2) show ?thesis by simp
  qed
  with pos obtain n where q: "quantum x = 1 / 2 ^ n" using quantum_inverse_power by blast
  have lo: "of_int (a * 2 ^ n) \<le> x * 2 ^ n" using assms(1) by simp
  have hi: "x * 2 ^ n \<le> of_int (b * 2 ^ n)" using assms(2) by simp
  have r1: "a * 2 ^ n \<le> roundTiesToEven (x * 2 ^ n)" using lo by (rule roundTiesToEven_ge)
  have r2: "roundTiesToEven (x * 2 ^ n) \<le> b * 2 ^ n" using hi by (rule roundTiesToEven_le)
  have eq: "binary64 x = of_int (roundTiesToEven (x * 2 ^ n)) / 2 ^ n"
    using pos q by (simp add: binary64_def)
  have "(of_int (a * 2 ^ n) :: real) \<le> of_int (roundTiesToEven (x * 2 ^ n))"
    using r1 by (simp only: of_int_le_iff)
  then have g1: "of_int a \<le> binary64 x" by (simp add: eq field_simps)
  have "(of_int (roundTiesToEven (x * 2 ^ n)) :: real) \<le> of_int (b * 2 ^ n)"
    using r2 by (simp only: of_int_le_iff)
  then have g2: "binary64 x \<le> of_int b" by (simp add: eq field_simps)
  from g1 g2 show ?thesis ..
qed

lemma backoff_delay_bounds:
  assumes "0 \<le> r" "r < 1" "i < MAX_RETRIES"
  shows "2000 * 2 ^ i \<le> backoff_delay i r \<and> backoff_delay i r \<le> 2000 * 2 ^ i + 1000"
proof -
  have i: "(2::int) ^ i \<le> 2 ^ 7" using assms(3) by (intro power_increasing) (simp_all add: MAX_RETRIES_def)
  have base: "js_times INITIAL_BACKOFF_MS (2 ^ i) = of_int (2000 * 2 ^ i)"
    using binary64_bracket [of "2000 * 2 ^ i" "2000 * 2 ^ i" "2000 * 2 ^ i"] i
    by (simp add: js_times_def INITIAL_BACKOFF_MS_def)
  have jit: "of_int 0 \<le> js_times r 1000 \<and> js_times r 1000 \<le> of_int 1000"
    unfolding js_times_def using assms by (intro binary64_bracket) simp_all
  have "of_int (2000 * 2 ^ i) \<le> binary64 (of_int (2000 * 2 ^ i) + js_times r 1000)
      \<and> binary64 (of_int (2000 * 2 ^ i) + js_times r 1000) \<le> of_int (2000 * 2 ^ i + 1000)"
    using jit i by (intro binary64_bracket) simp_all
  then show ?thesis by (simp add: backoff_delay_def js_plus_def base)
qed




lemma always_rate_limited_states: "((snd \<circ> always_rate_limited) ^^ n) k = k + n"
  by (induction n arbitrary: k) (simp_all add: always_rate_limited_def funpow_swap1)

text \<open>
  Claim C1. An operation that fails on every invocation with an error whose text holds a
  rate-limit marker is invoked exactly 8 times by the retry wrapper, which then throws the
  fixed overload error, whatever the operation's own errors were. The remote state at the
  end is the one that eight invocations of the operation, one after the other, lead to;
  the counter has grown by 8, and the seven backoff delays have been waited.
\<close>

theorem retry_exhausted:
  assumes "\<forall>s. \<exists>e s'. requestFn s = (Inl e, s') \<and> isRateLimitError lower e"
  shows "callGeminiWithRetry lower random requestFn st
     = (Inl overload_error,
        st\<lparr>remote := ((snd \<circ> requestFn) ^^ 8) (remote st),
           invocations := invocations st + 8,
           waits := waits st @ map (\<lambda>j. backoff_delay j (random j)) [0 ..< 7]\<rparr>)"
  using retry_loop_exhausted [OF assms, of 0 random st]
  by (simp add: callGeminiWithRetry_def MAX_RETRIES_def)

text \<open>
  Claim C1 at an operation that always answers 429 and counts its invocations: the
  overload error, and the operation's own count is 8.
\<close>

theorem retry_exhausted_witness:
  "callGeminiWithRetry toLowerCase_ascii random_zero always_rate_limited (fresh_io 0)
     = (Inl overload_error,
        \<lparr>remote = 8, invocations = 8,
         waits = map (\<lambda>j. backoff_delay j (random_zero j)) [0 ..< 7]\<rparr>)"
proof -
  have h: "\<forall>s. \<exists>e s'. always_rate_limited s = (Inl e, s') \<and> isRateLimitError toLowerCase_ascii e"
    using error_429_rate_limit by (simp add: always_rate_limited_def)
  from retry_exhausted [OF h, of random_zero "fresh_io 0"]
  show ?thesis by (simp add: always_rate_limited_states fresh_io_def)
qed

text \<open>
  Claim C2. When the operation's first invocation fails with an error whose lower-cased
  text holds none of the markers \<open>429\<close>, \<open>resource_exhausted\<close>, \<open>quota\<close>, the wrapper
  throws that same error after exactly one invocation: no retry, no wait, no other message.
\<close>

theorem pass_through_error:
  assumes "requestFn (remote st) = (Inl e, s')" and "\<not> isRateLimitError lower e"
  shows "callGeminiWithRetry lower random requestFn st
         = (Inl e, st\<lparr>remote := s', invocations := invocations st + 1\<rparr>)"
  using assms by (simp add: callGeminiWithRetry_def retry_loop_pass MAX_RETRIES_def)

text \<open>
  Claim C2 at an operation that answers 503.
\<close>

theorem pass_through_error_witness:
  "callGeminiWithRetry toLowerCase_ascii random_zero always_unavailable (fresh_io 0)
     = (Inl error_503, \<lparr>remote = 1, invocations = 1, waits = []\<rparr>)"
  using pass_through_error [of always_unavailable "fresh_io 0" error_503 1 toLowerCase_ascii
      random_zero] error_503_pass_through
  by (simp add: always_unavailable_def fresh_io_def)

text \<open>
  Claim C3. When the operation fails once with a rate-limit error and resolves on its
  second invocation, the wrapper invokes it exactly twice, with one wait between, and
  returns the value of the second invocation.
\<close>

theorem retry_then_success:
  assumes "requestFn (remote st) = (Inl e, s1)" and "isRateLimitError lower e"
    and "requestFn s1 = (Inr v, s2)"
  shows "callGeminiWithRetry lower random requestFn st
         = (Inr v, st\<lparr>remote := s2, invocations := invocations st + 2,
                       waits := waits st @ [backoff_delay 0 (random 0)]\<rparr>)"
  using assms
  by (simp add: callGeminiWithRetry_def retry_loop_retry retry_loop_resolve MAX_RETRIES_def)

text \<open>
  Claim C3 at an operation that answers 429 once and then resolves.
\<close>

theorem retry_then_success_witness:
  "callGeminiWithRetry toLowerCase_ascii random_zero rate_limited_once (fresh_io 0)
     = (Inr \<lparr>response_text = ascii ''ok''\<rparr>,
        \<lparr>remote = 2, invocations = 2, waits = [backoff_delay 0 (random_zero 0)]\<rparr>)"
  using retry_then_success [of rate_limited_once "fresh_io 0" error_429 1 toLowerCase_ascii
      "\<lparr>response_text = ascii ''ok''\<rparr>" 2 random_zero] error_429_rate_limit
  by (simp add: rate_limited_once_def fresh_io_def)

lemma backoff_delay_top: "backoff_delay 0 (random_top 0) = 3000"
  by code_simp

lemma rate_limited_once_run:
  "callGeminiWithRetry toLowerCase_ascii random rate_limited_once (fresh_io 0)
     = (Inr \<lparr>response_text = ascii ''ok''\<rparr>,
        \<lparr>remote = 2, invocations = 2, waits = [backoff_delay 0 (random 0)]\<rparr>)"
  using error_429_rate_limit
  by (simp add: callGeminiWithRetry_def retry_loop_retry [where e = error_429 and s' = 1]
      retry_loop_resolve MAX_RETRIES_def rate_limited_once_def fresh_io_def)

text \<open>
  Claim C4 says that the delay before retry \<open>k\<close> is below \<open>2000 * 2^(k-1) + 1000\<close>.
  With \<open>Math.random()\<close> returning \<open>1 - 2\<^sup>-\<^sup>5\<^sup>2\<close>, the largest value below 1 with 52
  fraction bits, the delay before the first retry is 3000: the jitter
  \<open>999.9999999999998\<close> is below 1000, and the binary64 sum of 2000 and the jitter
  rounds up to 3000.
\<close>

theorem backoff_upper_end_counterexample:
  "0 \<le> random_top 0 \<and> random_top 0 < 1
   \<and> \<not> (waits (snd (callGeminiWithRetry toLowerCase_ascii random_top rate_limited_once
              (fresh_io 0))) ! (1 - 1) < 2000 * 2 ^ (1 - 1) + 1000)"
  by (simp add: rate_limited_once_run backoff_delay_top) (simp add: random_top_def)

text \<open>
  Claim C4, amended. For every run of the wrapper with \<open>Math.random()\<close> in \<open>[0, 1)\<close>: the
  operation is invoked between 1 and 8 times, a delay is waited before every invocation
  but the first and none after the last, and the delay before retry \<open>k\<close> (1-indexed) lies
  in the closed interval from \<open>2000 * 2^(k-1)\<close> to \<open>2000 * 2^(k-1) + 1000\<close>.
\<close>

theorem backoff_delays_bounded:
  assumes "\<forall>i. 0 \<le> random i \<and> random i < 1"
  shows "1 \<le> invocations (snd (callGeminiWithRetry lower random requestFn (fresh_io s)))
    \<and> invocations (snd (callGeminiWithRetry lower random requestFn (fresh_io s))) \<le> 8
    \<and> length (waits (snd (callGeminiWithRetry lower random requestFn (fresh_io s))))
        = invocations (snd (callGeminiWithRetry lower random requestFn (fresh_io s))) - 1
    \<and> (\<forall>k. 1 \<le> k
            \<and> k \<le> length (waits (snd (callGeminiWithRetry lower random requestFn (fresh_io s))))
         \<longrightarrow> 2000 * 2 ^ (k - 1)
               \<le> waits (snd (callGeminiWithRetry lower random requestFn (fresh_io s))) ! (k - 1)
             \<and> waits (snd (callGeminiWithRetry lower random requestFn (fresh_io s))) ! (k - 1)
               \<le> 2000 * 2 ^ (k - 1) + 1000)"
proof -
  let ?R = "snd (callGeminiWithRetry lower random requestFn (fresh_io s))"
  obtain n where n: "1 \<le> n" "n \<le> MAX_RETRIES" "invocations ?R = n"
    "waits ?R = map (\<lambda>j. backoff_delay j (random j)) [0 ..< n - 1]"
    using retry_loop_trace [of 0 lower random requestFn "fresh_io s"]
    by (auto simp: callGeminiWithRetry_def MAX_RETRIES_def fresh_io_def)
  have "2000 * 2 ^ (k - 1) \<le> waits ?R ! (k - 1) \<and> waits ?R ! (k - 1) \<le> 2000 * 2 ^ (k - 1) + 1000"
    if k: "1 \<le> k" "k \<le> length (waits ?R)" for k
  proof -
    from k n have lt: "k - 1 < n - 1" by simp
    then have "waits ?R ! (k - 1) = backoff_delay (k - 1) (random (k - 1))"
      by (simp add: n(4))
    moreover from lt n(2) have "k - 1 < MAX_RETRIES" by simp
    ultimately show ?thesis using backoff_delay_bounds [of "random (k - 1)" "k - 1"] assms by simp
  qed
  then have b: "\<forall>k. 1 \<le> k \<and> k \<le> length (waits ?R)
         \<longrightarrow> 2000 * 2 ^ (k - 1) \<le> waits ?R ! (k - 1)
             \<and> waits ?R ! (k - 1) \<le> 2000 * 2 ^ (k - 1) + 1000"
    by blast
  have a1: "1 \<le> invocations ?R" using n by simp
  have a2: "invocations ?R \<le> 8" using n by (simp add: MAX_RETRIES_def)
  have a3: "length (waits ?R) = invocations ?R - 1" using n by simp
  from a1 a2 a3 b show ?thesis by (intro conjI)
qed

lemma always_rate_limited_waits:
  "waits (snd (callGeminiWithRetry toLowerCase_ascii random always_rate_limited (fresh_io 0)))
   = map (\<lambda>j. backoff_delay j (random j)) [0 ..< 7]"
  using error_429_rate_limit
  by (simp add: callGeminiWithRetry_def retry_loop_retry [where e = error_429]
      retry_loop_last [where e = error_429] retry_loop_done
      MAX_RETRIES_def always_rate_limited_def fresh_io_def upt_rec)

text \<open>
  Claim C4, amended, at an operation that always answers 429: seven delays, the seventh
  between 128000 and 129000.
\<close>

theorem backoff_delays_bounded_witness:
  "length (waits (snd (callGeminiWithRetry toLowerCase_ascii random_top always_rate_limited
      (fresh_io 0)))) = 7
   \<and> 128000 \<le> waits (snd (callGeminiWithRetry toLowerCase_ascii random_top always_rate_limited
      (fresh_io 0))) ! 6
   \<and> waits (snd (callGeminiWithRetry toLowerCase_ascii random_top always_rate_limited
      (fresh_io 0))) ! 6 \<le> 129000"
proof -
  have r: "\<forall>i. 0 \<le> random_top i \<and> random_top i < 1" by (simp add: random_top_def)
  have len: "length (waits (snd (callGeminiWithRetry toLowerCase_ascii random_top
      always_rate_limited (fresh_io 0)))) = 7"
    by (simp add: always_rate_limited_waits)
  from backoff_delays_bounded [OF r, of toLowerCase_ascii always_rate_limited 0] len
  show ?thesis by (auto dest: spec [of _ 7])
qed

section \<open>The pipeline stages: properties\<close>

lemma callGeminiWithRetry_resolve:
  "requestFn (remote st) = (Inr v, s') \<Longrightarrow>
   callGeminiWithRetry lower random requestFn st
     = (Inr v, st\<lparr>remote := s', invocations := invocations st + 1\<rparr>)"
  by (simp add: callGeminiWithRetry_def retry_loop_resolve MAX_RETRIES_def)

lemma callGeminiWithRetry_pass:
  "requestFn (remote st) = (Inl e, s') \<Longrightarrow> \<not> isRateLimitError lower e \<Longrightarrow>
   callGeminiWithRetry lower random requestFn st
     = (Inl e, st\<lparr>remote := s', invocations := invocations st + 1\<rparr>)"
  by (simp add: callGeminiWithRetry_def retry_loop_pass MAX_RETRIES_def)

lemma getAIClient_key: "k \<noteq> [] \<Longrightarrow> getAIClient (Some k) = Inr (GoogleGenAI k)"
  by (simp add: getAIClient_def)

lemma getAIClient_missing:
  "apiKey = None \<or> apiKey = Some [] \<Longrightarrow>
   getAIClient apiKey = Inl (new_Error (ascii ''API key not configured.''))"
  by (auto simp: getAIClient_def)

text \<open>
  Claim C8. When the key of the environment is absent (undefined, or empty), each of the
  six AI-backed operations throws the configuration error and leaves the state as it
  was: the remote operation is not invoked.
\<close>

theorem missing_key_is_fatal:
  assumes "apiKey = None \<or> apiKey = Some []"
  shows "generateDocumentContentWithAI lower random apiKey generateContent JSON_parse
           purpose data docType field tone detail st
         = (Inl (new_Error (ascii ''API key not configured.'')), st)
    \<and> formalizeContentWithAI lower random apiKey generateContent raw st
         = (Inl (new_Error (ascii ''API key not configured.'')), st)
    \<and> suggestFormattingWithAI lower random apiKey generateContent processed st
         = (Inl (new_Error (ascii ''API key not configured.'')), st)
    \<and> proofreadWithAI lower random apiKey generateContent raw st
         = (Inl (new_Error (ascii ''API key not configured.'')), st)
    \<and> extractTextFromImage lower random apiKey generateContent base64Image mimeType st
         = (Inl (new_Error (ascii ''API key not configured.'')), st)
    \<and> analyzeText lower random apiKey generateContent documentText userPrompt field tone detail st
         = (Inl (new_Error (ascii ''API key not configured.'')), st)"
  by (simp add: getAIClient_missing [OF assms] generateDocumentContentWithAI_def
      formalizeContentWithAI_def suggestFormattingWithAI_def proofreadWithAI_def
      extractTextFromImage_def analyzeText_def)

text \<open>
  Claim C8 at an undefined key.
\<close>

theorem missing_key_is_fatal_witness:
  "formalizeContentWithAI toLowerCase_ascii random_zero None model_answers (ascii ''abc'')
       (fresh_io 0)
     = (Inl (new_Error (ascii ''API key not configured.'')), fresh_io 0)
   \<and> invocations (fresh_io (0::nat)) = 0"
  using missing_key_is_fatal [of None toLowerCase_ascii random_zero model_answers
      parse_as_text "[]" "[]" TTr "[]" "[]" "[]" "fresh_io 0" "ascii ''abc''"]
  by (simp add: fresh_io_def)

text \<open>
  Claim C7 says that every stage surfaces a pass-through remote error to its caller, the
  suggest-formatting stage in particular. With a remote that answers 503, which is no
  rate-limit error, the suggest-formatting stage throws nothing: it returns its input.
\<close>

theorem suggest_formatting_swallows_counterexample:
  "model_unavailable (GoogleGenAI sample_key) (SuggestFormattingRequest (ascii ''abc'')) 0
     = (Inl error_503, 1)
   \<and> \<not> isRateLimitError toLowerCase_ascii error_503
   \<and> suggestFormattingWithAI toLowerCase_ascii random_zero (Some sample_key) model_unavailable
       (ascii ''abc'') (fresh_io 0)
     = (Inr (ascii ''abc''), \<lparr>remote = 1, invocations = 1, waits = []\<rparr>)"
  using error_503_pass_through
  by (simp add: suggestFormattingWithAI_def getAIClient_def sample_key_def ascii_def
      callGeminiWithRetry_pass [where e = error_503 and s' = 1] model_unavailable_def fresh_io_def)


text \<open>
  Claim C7, amended. With a key present, the result of each stage is made from the result
  of the retry wrapper run on the remote model with the stage's own request: when the
  wrapper returns a response, the stage returns the model's text (trimmed by the
  proofreading stage, parsed by the drafting stage); when the wrapper throws, every stage
  but suggest-formatting throws a new error with the thrown error's message (the stage's
  own message if that one is empty), and the suggest-formatting stage returns its input
  text. In particular, when the remote rejects the stage's request with an error that is
  no rate-limit error, every stage but suggest-formatting throws the remote error's
  message after that one invocation, while suggest-formatting returns its input; and when
  the remote is rate-limited throughout, suggest-formatting returns its input after the
  eight invocations, the overload error reaching no one.
\<close>

theorem stage_results:
  assumes "apiKey = Some k" and "k \<noteq> []"
  shows "generateDocumentContentWithAI lower random apiKey generateContent JSON_parse
         purpose extra docType field tone detail st
       = (case callGeminiWithRetry lower random
                 (generateContent (GoogleGenAI k)
                    (GenerateDraftRequest purpose extra docType field tone detail)) st of
            (Inr response, st') \<Rightarrow>
              (case JSON_parse (String_trim (response_text response)) of
                 Inr parsedResult \<Rightarrow> (Inr parsedResult, st')
               | Inl error \<Rightarrow>
                (Inl (new_Error (if message error = [] then generate_fallback else message error)),
                 st'))
          | (Inl error, st') \<Rightarrow>
                (Inl (new_Error (if message error = [] then generate_fallback else message error)),
                 st'))
    \<and> formalizeContentWithAI lower random apiKey generateContent raw st
       = (case callGeminiWithRetry lower random
                 (generateContent (GoogleGenAI k)
                    (FormalizeRequest raw)) st of
            (Inr response, st') \<Rightarrow> (Inr (response_text response), st')
          | (Inl error, st') \<Rightarrow>
                (Inl (new_Error (if message error = [] then formalize_fallback else message error)),
                 st'))
    \<and> proofreadWithAI lower random apiKey generateContent raw st
       = (case callGeminiWithRetry lower random
                 (generateContent (GoogleGenAI k)
                    (ProofreadRequest raw)) st of
            (Inr response, st') \<Rightarrow> (Inr (String_trim (response_text response)), st')
          | (Inl error, st') \<Rightarrow>
                (Inl (new_Error (if message error = [] then proofread_fallback else message error)),
                 st'))
    \<and> extractTextFromImage lower random apiKey generateContent img mime st
       = (case callGeminiWithRetry lower random
                 (generateContent (GoogleGenAI k)
                    (ExtractTextRequest img mime)) st of
            (Inr response, st') \<Rightarrow> (Inr (response_text response), st')
          | (Inl error, st') \<Rightarrow>
                (Inl (new_Error (if message error = [] then extract_fallback else message error)),
                 st'))
    \<and> analyzeText lower random apiKey generateContent doc_text prompt field tone detail st
       = (case callGeminiWithRetry lower random
                 (generateContent (GoogleGenAI k)
                    (AnalyzeRequest doc_text prompt field tone detail)) st of
            (Inr response, st') \<Rightarrow> (Inr (response_text response), st')
          | (Inl error, st') \<Rightarrow>
                (Inl (new_Error (if message error = [] then analyze_fallback else message error)),
                 st'))
    \<and> suggestFormattingWithAI lower random apiKey generateContent processed st
       = (case callGeminiWithRetry lower random
                 (generateContent (GoogleGenAI k)
                    (SuggestFormattingRequest processed)) st of
            (Inr response, st') \<Rightarrow> (Inr (response_text response), st')
          | (Inl error, st') \<Rightarrow> (Inr processed, st'))
    \<and> (generateContent (GoogleGenAI k)
           (GenerateDraftRequest purpose extra docType field tone detail) (remote st)
         = (Inl e, s')
         \<and> \<not> isRateLimitError lower e
       \<longrightarrow> generateDocumentContentWithAI lower random apiKey generateContent JSON_parse
         purpose extra docType field tone detail st
           = (Inl (new_Error (if message e = [] then generate_fallback else message e)),
              st\<lparr>remote := s', invocations := invocations st + 1\<rparr>))
    \<and> (generateContent (GoogleGenAI k)
           (FormalizeRequest raw) (remote st)
         = (Inl e, s')
         \<and> \<not> isRateLimitError lower e
       \<longrightarrow> formalizeContentWithAI lower random apiKey generateContent raw st
           = (Inl (new_Error (if message e = [] then formalize_fallback else message e)),
              st\<lparr>remote := s', invocations := invocations st + 1\<rparr>))
    \<and> (generateContent (GoogleGenAI k)
           (ProofreadRequest raw) (remote st)
         = (Inl e, s')
         \<and> \<not> isRateLimitError lower e
       \<longrightarrow> proofreadWithAI lower random apiKey generateContent raw st
           = (Inl (new_Error (if message e = [] then proofread_fallback else message e)),
              st\<lparr>remote := s', invocations := invocations st + 1\<rparr>))
    \<and> (generateContent (GoogleGenAI k)
           (ExtractTextRequest img mime) (remote st)
         = (Inl e, s')
         \<and> \<not> isRateLimitError lower e
       \<longrightarrow> extractTextFromImage lower random apiKey generateContent img mime st
           = (Inl (new_Error (if message e = [] then extract_fallback else message e)),
              st\<lparr>remote := s', invocations := invocations st + 1\<rparr>))
    \<and> (generateContent (GoogleGenAI k)
           (AnalyzeRequest doc_text prompt field tone detail) (remote st)
         = (Inl e, s')
         \<and> \<not> isRateLimitError lower e
       \<longrightarrow> analyzeText lower random apiKey generateContent doc_text prompt field tone detail st
           = (Inl (new_Error (if message e = [] then analyze_fallback else message e)),
              st\<lparr>remote := s', invocations := invocations st + 1\<rparr>))
    \<and> (generateContent (GoogleGenAI k)
           (SuggestFormattingRequest processed) (remote st)
         = (Inl e, s')
         \<and> \<not> isRateLimitError lower e
       \<longrightarrow> suggestFormattingWithAI lower random apiKey generateContent processed st
           = (Inr processed, st\<lparr>remote := s', invocations := invocations st + 1\<rparr>))
    \<and> ((\<forall>s. \<exists>e s'. generateContent (GoogleGenAI k) (SuggestFormattingRequest processed) s = (Inl e, s')
              \<and> isRateLimitError lower e)
       \<longrightarrow> suggestFormattingWithAI lower random apiKey generateContent processed st
           = (Inr processed,
              st\<lparr>remote := ((snd \<circ> generateContent (GoogleGenAI k) (SuggestFormattingRequest processed)) ^^ 8) (remote st),
                 invocations := invocations st + 8,
                 waits := waits st @ map (\<lambda>j. backoff_delay j (random j)) [0 ..< 7]\<rparr>))"
proof -
  have a1: "generateDocumentContentWithAI lower random apiKey generateContent JSON_parse
         purpose extra docType field tone detail st
       = (case callGeminiWithRetry lower random
                 (generateContent (GoogleGenAI k)
                    (GenerateDraftRequest purpose extra docType field tone detail)) st of
            (Inr response, st') \<Rightarrow>
              (case JSON_parse (String_trim (response_text response)) of
                 Inr parsedResult \<Rightarrow> (Inr parsedResult, st')
               | Inl error \<Rightarrow>
                (Inl (new_Error (if message error = [] then generate_fallback else message error)),
                 st'))
          | (Inl error, st') \<Rightarrow>
                (Inl (new_Error (if message error = [] then generate_fallback else message error)),
                 st'))"
    using assms by (simp add: generateDocumentContentWithAI_def getAIClient_key rethrow_def split: prod.splits sum.splits)
  have a2: "formalizeContentWithAI lower random apiKey generateContent raw st
       = (case callGeminiWithRetry lower random
                 (generateContent (GoogleGenAI k)
                    (FormalizeRequest raw)) st of
            (Inr response, st') \<Rightarrow> (Inr (response_text response), st')
          | (Inl error, st') \<Rightarrow>
                (Inl (new_Error (if message error = [] then formalize_fallback else message error)),
                 st'))"
    using assms by (simp add: formalizeContentWithAI_def getAIClient_key rethrow_def split: prod.splits sum.splits)
  have a3: "proofreadWithAI lower random apiKey generateContent raw st
       = (case callGeminiWithRetry lower random
                 (generateContent (GoogleGenAI k)
                    (ProofreadRequest raw)) st of
            (Inr response, st') \<Rightarrow> (Inr (String_trim (response_text response)), st')
          | (Inl error, st') \<Rightarrow>
                (Inl (new_Error (if message error = [] then proofread_fallback else message error)),
                 st'))"
    using assms by (simp add: proofreadWithAI_def getAIClient_key rethrow_def split: prod.splits sum.splits)
  have a4: "extractTextFromImage lower random apiKey generateContent img mime st
       = (case callGeminiWithRetry lower random
                 (generateContent (GoogleGenAI k)
                    (ExtractTextRequest img mime)) st of
            (Inr response, st') \<Rightarrow> (Inr (response_text response), st')
          | (Inl error, st') \<Rightarrow>
                (Inl (new_Error (if message error = [] then extract_fallback else message error)),
                 st'))"
    using assms by (simp add: extractTextFromImage_def getAIClient_key rethrow_def split: prod.splits sum.splits)
  have a5: "analyzeText lower random apiKey generateContent doc_text prompt field tone detail st
       = (case callGeminiWithRetry lower random
                 (generateContent (GoogleGenAI k)
                    (AnalyzeRequest doc_text prompt field tone detail)) st of
            (Inr response, st') \<Rightarrow> (Inr (response_text response), st')
          | (Inl error, st') \<Rightarrow>
                (Inl (new_Error (if message error = [] then analyze_fallback else message error)),
                 st'))"
    using assms by (simp add: analyzeText_def getAIClient_key rethrow_def split: prod.splits sum.splits)
  have a6: "suggestFormattingWithAI lower random apiKey generateContent processed st
       = (case callGeminiWithRetry lower random
                 (generateContent (GoogleGenAI k)
                    (SuggestFormattingRequest processed)) st of
            (Inr response, st') \<Rightarrow> (Inr (response_text response), st')
          | (Inl error, st') \<Rightarrow> (Inr processed, st'))"
    using assms by (simp add: suggestFormattingWithAI_def getAIClient_key rethrow_def split: prod.splits sum.splits)
  have b1: "(generateContent (GoogleGenAI k)
           (GenerateDraftRequest purpose extra docType field tone detail) (remote st)
         = (Inl e, s')
         \<and> \<not> isRateLimitError lower e
       \<longrightarrow> generateDocumentContentWithAI lower random apiKey generateContent JSON_parse
         purpose extra docType field tone detail st
           = (Inl (new_Error (if message e = [] then generate_fallback else message e)),
              st\<lparr>remote := s', invocations := invocations st + 1\<rparr>))"
    using assms by (simp add: generateDocumentContentWithAI_def getAIClient_key rethrow_def callGeminiWithRetry_pass)
  have b2: "(generateContent (GoogleGenAI k)
           (FormalizeRequest raw) (remote st)
         = (Inl e, s')
         \<and> \<not> isRateLimitError lower e
       \<longrightarrow> formalizeContentWithAI lower random apiKey generateContent raw st
           = (Inl (new_Error (if message e = [] then formalize_fallback else message e)),
              st\<lparr>remote := s', invocations := invocations st + 1\<rparr>))"
    using assms by (simp add: formalizeContentWithAI_def getAIClient_key rethrow_def callGeminiWithRetry_pass)
  have b3: "(generateContent (GoogleGenAI k)
           (ProofreadRequest raw) (remote st)
         = (Inl e, s')
         \<and> \<not> isRateLimitError lower e
       \<longrightarrow> proofreadWithAI lower random apiKey generateContent raw st
           = (Inl (new_Error (if message e = [] then proofread_fallback else message e)),
              st\<lparr>remote := s', invocations := invocations st + 1\<rparr>))"
    using assms by (simp add: proofreadWithAI_def getAIClient_key rethrow_def callGeminiWithRetry_pass)
  have b4: "(generateContent (GoogleGenAI k)
           (ExtractTextRequest img mime) (remote st)
         = (Inl e, s')
         \<and> \<not> isRateLimitError lower e
       \<longrightarrow> extractTextFromImage lower random apiKey generateContent img mime st
           = (Inl (new_Error (if message e = [] then extract_fallback else message e)),
              st\<lparr>remote := s', invocations := invocations st + 1\<rparr>))"
    using assms by (simp add: extractTextFromImage_def getAIClient_key rethrow_def callGeminiWithRetry_pass)
  have b5: "(generateContent (GoogleGenAI k)
           (AnalyzeRequest doc_text prompt field tone detail) (remote st)
         = (Inl e, s')
         \<and> \<not> isRateLimitError lower e
       \<longrightarrow> analyzeText lower random apiKey generateContent doc_text prompt field tone detail st
           = (Inl (new_Error (if message e = [] then analyze_fallback else message e)),
              st\<lparr>remote := s', invocations := invocations st + 1\<rparr>))"
    using assms by (simp add: analyzeText_def getAIClient_key rethrow_def callGeminiWithRetry_pass)
  have b6: "(generateContent (GoogleGenAI k)
           (SuggestFormattingRequest processed) (remote st)
         = (Inl e, s')
         \<and> \<not> isRateLimitError lower e
       \<longrightarrow> suggestFormattingWithAI lower random apiKey generateContent processed st
           = (Inr processed, st\<lparr>remote := s', invocations := invocations st + 1\<rparr>))"
    using assms by (simp add: suggestFormattingWithAI_def getAIClient_key rethrow_def callGeminiWithRetry_pass)
  have c: "((\<forall>s. \<exists>e s'. generateContent (GoogleGenAI k) (SuggestFormattingRequest processed) s = (Inl e, s')
              \<and> isRateLimitError lower e)
       \<longrightarrow> suggestFormattingWithAI lower random apiKey generateContent processed st
           = (Inr processed,
              st\<lparr>remote := ((snd \<circ> generateContent (GoogleGenAI k) (SuggestFormattingRequest processed)) ^^ 8) (remote st),
                 invocations := invocations st + 8,
                 waits := waits st @ map (\<lambda>j. backoff_delay j (random j)) [0 ..< 7]\<rparr>))"
  proof
    assume h: "\<forall>s. \<exists>e s'. generateContent (GoogleGenAI k) (SuggestFormattingRequest processed) s = (Inl e, s')
              \<and> isRateLimitError lower e"
    from retry_loop_exhausted [OF h, of 0 random st] assms
    show "suggestFormattingWithAI lower random apiKey generateContent processed st
           = (Inr processed,
              st\<lparr>remote := ((snd \<circ> generateContent (GoogleGenAI k) (SuggestFormattingRequest processed)) ^^ 8) (remote st),
                 invocations := invocations st + 8,
                 waits := waits st @ map (\<lambda>j. backoff_delay j (random j)) [0 ..< 7]\<rparr>)"
      by (simp add: suggestFormattingWithAI_def getAIClient_key callGeminiWithRetry_def
          MAX_RETRIES_def)
  qed
  from a1 a2 a3 a4 a5 a6 b1 b2 b3 b4 b5 b6 c show ?thesis by (intro conjI)
qed

text \<open>
  Claim C7, amended: the six stages at a remote that answers 503, suggest-formatting at a
  remote that always answers 429, the formalize stage at a remote that answers 429 once
  and then resolves, and the proofreading stage at a remote that resolves.
\<close>

theorem stage_results_witness:
  "generateDocumentContentWithAI toLowerCase_ascii random_zero (Some sample_key) model_unavailable parse_as_text
       (ascii ''abc'') [] TTr (ascii ''law'') (ascii ''formal'') (ascii ''concise'') (fresh_io 0)
     = (Inl (new_Error (ascii ''got status: 503 Service Unavailable'')),
        \<lparr>remote = 1, invocations = 1, waits = []\<rparr>)
   \<and> formalizeContentWithAI toLowerCase_ascii random_zero (Some sample_key) model_unavailable (ascii ''abc'') (fresh_io 0)
     = (Inl (new_Error (ascii ''got status: 503 Service Unavailable'')),
        \<lparr>remote = 1, invocations = 1, waits = []\<rparr>)
   \<and> proofreadWithAI toLowerCase_ascii random_zero (Some sample_key) model_unavailable (ascii ''abc'') (fresh_io 0)
     = (Inl (new_Error (ascii ''got status: 503 Service Unavailable'')),
        \<lparr>remote = 1, invocations = 1, waits = []\<rparr>)
   \<and> extractTextFromImage toLowerCase_ascii random_zero (Some sample_key) model_unavailable (ascii ''abc'')
       (ascii ''image/png'') (fresh_io 0)
     = (Inl (new_Error (ascii ''got status: 503 Service Unavailable'')),
        \<lparr>remote = 1, invocations = 1, waits = []\<rparr>)
   \<and> analyzeText toLowerCase_ascii random_zero (Some sample_key) model_unavailable (ascii ''abc'') (ascii ''abc'')
       (ascii ''law'') (ascii ''formal'') (ascii ''concise'') (fresh_io 0)
     = (Inl (new_Error (ascii ''got status: 503 Service Unavailable'')),
        \<lparr>remote = 1, invocations = 1, waits = []\<rparr>)
   \<and> suggestFormattingWithAI toLowerCase_ascii random_zero (Some sample_key) model_unavailable (ascii ''abc'') (fresh_io 0)
     = (Inr (ascii ''abc''), \<lparr>remote = 1, invocations = 1, waits = []\<rparr>)
   \<and> suggestFormattingWithAI toLowerCase_ascii random_zero (Some sample_key) model_rate_limited (ascii ''abc'') (fresh_io 0)
     = (Inr (ascii ''abc''),
        \<lparr>remote = 8, invocations = 8,
         waits = map (\<lambda>j. backoff_delay j (random_zero j)) [0 ..< 7]\<rparr>)
   \<and> formalizeContentWithAI toLowerCase_ascii random_zero (Some sample_key) model_rate_limited_once (ascii ''abc'') (fresh_io 0)
     = (Inr (ascii ''ok''),
        \<lparr>remote = 2, invocations = 2, waits = [backoff_delay 0 (random_zero 0)]\<rparr>)
   \<and> proofreadWithAI toLowerCase_ascii random_zero (Some sample_key) model_answers (ascii ''abc'') (fresh_io 0)
     = (Inr (ascii ''Ok''), \<lparr>remote = 1, invocations = 1, waits = []\<rparr>)"
proof -
  have k: "sample_key \<noteq> []" by (simp add: sample_key_def ascii_def)
  have trim: "String_trim (ascii '' Ok '') = ascii ''Ok''"
    by (simp add: String_trim_def isWhiteSpace_def ascii_def)
  have msg: "message error_503 = ascii ''got status: 503 Service Unavailable''"
    by (simp add: error_503_def)
  have ne: "ascii ''got status: 503 Service Unavailable'' \<noteq> []" by (simp add: ascii_def)
  have bad: "model_unavailable ai req (remote (fresh_io 0)) = (Inl error_503, 1)" for ai req
    by (simp add: model_unavailable_def fresh_io_def)
  note pass = error_503_pass_through
  have limited: "\<forall>s. \<exists>e s'. model_rate_limited ai req s = (Inl e, s')
      \<and> isRateLimitError toLowerCase_ascii e" for ai req
    using error_429_rate_limit by (simp add: model_rate_limited_def always_rate_limited_def)
  have once: "callGeminiWithRetry toLowerCase_ascii random_zero (model_rate_limited_once ai req)
      (fresh_io 0)
     = (Inr \<lparr>response_text = ascii ''ok''\<rparr>,
        \<lparr>remote = 2, invocations = 2, waits = [backoff_delay 0 (random_zero 0)]\<rparr>)" for ai req
    by (simp add: model_rate_limited_once_def rate_limited_once_run)
  have answers: "callGeminiWithRetry toLowerCase_ascii random_zero (model_answers ai req)
      (fresh_io 0)
     = (Inr \<lparr>response_text = ascii '' Ok ''\<rparr>, \<lparr>remote = 1, invocations = 1, waits = []\<rparr>)"
    for ai req
    by (simp add: callGeminiWithRetry_resolve [where s' = 1] model_answers_def fresh_io_def)
  note u = stage_results [OF refl k, where generateContent = model_unavailable
      and st = "fresh_io 0" and s' = 1 and e = error_503
      and lower = toLowerCase_ascii and random = random_zero and raw = "ascii ''abc''"
      and processed = "ascii ''abc''" and img = "ascii ''abc''" and mime = "ascii ''image/png''"
      and doc_text = "ascii ''abc''" and prompt = "ascii ''abc''" and field = "ascii ''law''"
      and tone = "ascii ''formal''" and detail = "ascii ''concise''"
      and JSON_parse = parse_as_text and purpose = "ascii ''abc''" and extra = "[]"
      and docType = TTr]
  have 1: "generateDocumentContentWithAI toLowerCase_ascii random_zero (Some sample_key) model_unavailable parse_as_text
       (ascii ''abc'') [] TTr (ascii ''law'') (ascii ''formal'') (ascii ''concise'') (fresh_io 0)
     = (Inl (new_Error (ascii ''got status: 503 Service Unavailable'')),
        \<lparr>remote = 1, invocations = 1, waits = []\<rparr>)"
    using u [THEN conjunct2, THEN conjunct2, THEN conjunct2, THEN conjunct2, THEN conjunct2, THEN conjunct2, THEN conjunct1, THEN mp, OF conjI [OF bad pass]]
    by (simp add: msg ne fresh_io_def)
  have 2: "formalizeContentWithAI toLowerCase_ascii random_zero (Some sample_key) model_unavailable (ascii ''abc'') (fresh_io 0)
     = (Inl (new_Error (ascii ''got status: 503 Service Unavailable'')),
        \<lparr>remote = 1, invocations = 1, waits = []\<rparr>)"
    using u [THEN conjunct2, THEN conjunct2, THEN conjunct2, THEN conjunct2, THEN conjunct2, THEN conjunct2, THEN conjunct2, THEN conjunct1, THEN mp, OF conjI [OF bad pass]]
    by (simp add: msg ne fresh_io_def)
  have 3: "proofreadWithAI toLowerCase_ascii random_zero (Some sample_key) model_unavailable (ascii ''abc'') (fresh_io 0)
     = (Inl (new_Error (ascii ''got status: 503 Service Unavailable'')),
        \<lparr>remote = 1, invocations = 1, waits = []\<rparr>)"
    using u [THEN conjunct2, THEN conjunct2, THEN conjunct2, THEN conjunct2, THEN conjunct2, THEN conjunct2, THEN conjunct2, THEN conjunct2, THEN conjunct1, THEN mp, OF conjI [OF bad pass]]
    by (simp add: msg ne fresh_io_def)
  have 4: "extractTextFromImage toLowerCase_ascii random_zero (Some sample_key) model_unavailable (ascii ''abc'')
       (ascii ''image/png'') (fresh_io 0)
     = (Inl (new_Error (ascii ''got status: 503 Service Unavailable'')),
        \<lparr>remote = 1, invocations = 1, waits = []\<rparr>)"
    using u [THEN conjunct2, THEN conjunct2, THEN conjunct2, THEN conjunct2, THEN conjunct2, THEN conjunct2, THEN conjunct2, THEN conjunct2, THEN conjunct2, THEN conjunct1, THEN mp, OF conjI [OF bad pass]]
    by (simp add: msg ne fresh_io_def)
  have 5: "analyzeText toLowerCase_ascii random_zero (Some sample_key) model_unavailable (ascii ''abc'') (ascii ''abc'')
       (ascii ''law'') (ascii ''formal'') (ascii ''concise'') (fresh_io 0)
     = (Inl (new_Error (ascii ''got status: 503 Service Unavailable'')),
        \<lparr>remote = 1, invocations = 1, waits = []\<rparr>)"
    using u [THEN conjunct2, THEN conjunct2, THEN conjunct2, THEN conjunct2, THEN conjunct2, THEN conjunct2, THEN conjunct2, THEN conjunct2, THEN conjunct2, THEN conjunct2, THEN conjunct1, THEN mp, OF conjI [OF bad pass]]
    by (simp add: msg ne fresh_io_def)
  have 6: "suggestFormattingWithAI toLowerCase_ascii random_zero (Some sample_key) model_unavailable (ascii ''abc'') (fresh_io 0)
     = (Inr (ascii ''abc''), \<lparr>remote = 1, invocations = 1, waits = []\<rparr>)"
    using u [THEN conjunct2, THEN conjunct2, THEN conjunct2, THEN conjunct2, THEN conjunct2, THEN conjunct2, THEN conjunct2, THEN conjunct2, THEN conjunct2, THEN conjunct2, THEN conjunct2, THEN conjunct1, THEN mp, OF conjI [OF bad pass]]
    by (simp add: msg ne fresh_io_def)
  note r = stage_results [OF refl k, where generateContent = model_rate_limited
      and st = "fresh_io 0" and s' = 1 and e = error_503
      and lower = toLowerCase_ascii and random = random_zero and raw = "ascii ''abc''"
      and processed = "ascii ''abc''" and img = "ascii ''abc''" and mime = "ascii ''image/png''"
      and doc_text = "ascii ''abc''" and prompt = "ascii ''abc''" and field = "ascii ''law''"
      and tone = "ascii ''formal''" and detail = "ascii ''concise''"
      and JSON_parse = parse_as_text and purpose = "ascii ''abc''" and extra = "[]"
      and docType = TTr]
  have 7: "suggestFormattingWithAI toLowerCase_ascii random_zero (Some sample_key) model_rate_limited (ascii ''abc'') (fresh_io 0)
     = (Inr (ascii ''abc''),
        \<lparr>remote = 8, invocations = 8,
         waits = map (\<lambda>j. backoff_delay j (random_zero j)) [0 ..< 7]\<rparr>)"
    using r [THEN conjunct2, THEN conjunct2, THEN conjunct2, THEN conjunct2, THEN conjunct2, THEN conjunct2, THEN conjunct2, THEN conjunct2, THEN conjunct2, THEN conjunct2, THEN conjunct2, THEN conjunct2, THEN mp, OF limited]
    by (simp add: model_rate_limited_def always_rate_limited_states fresh_io_def)
  note o = stage_results [OF refl k, where generateContent = model_rate_limited_once
      and st = "fresh_io 0" and s' = 1 and e = error_503
      and lower = toLowerCase_ascii and random = random_zero and raw = "ascii ''abc''"
      and processed = "ascii ''abc''" and img = "ascii ''abc''" and mime = "ascii ''image/png''"
      and doc_text = "ascii ''abc''" and prompt = "ascii ''abc''" and field = "ascii ''law''"
      and tone = "ascii ''formal''" and detail = "ascii ''concise''"
      and JSON_parse = parse_as_text and purpose = "ascii ''abc''" and extra = "[]"
      and docType = TTr]
  have 8: "formalizeContentWithAI toLowerCase_ascii random_zero (Some sample_key) model_rate_limited_once (ascii ''abc'') (fresh_io 0)
     = (Inr (ascii ''ok''),
        \<lparr>remote = 2, invocations = 2, waits = [backoff_delay 0 (random_zero 0)]\<rparr>)"
    using o [THEN conjunct2, THEN conjunct1] by (simp add: once)
  note a = stage_results [OF refl k, where generateContent = model_answers
      and st = "fresh_io 0" and s' = 1 and e = error_503
      and lower = toLowerCase_ascii and random = random_zero and raw = "ascii ''abc''"
      and processed = "ascii ''abc''" and img = "ascii ''abc''" and mime = "ascii ''image/png''"
      and doc_text = "ascii ''abc''" and prompt = "ascii ''abc''" and field = "ascii ''law''"
      and tone = "ascii ''formal''" and detail = "ascii ''concise''"
      and JSON_parse = parse_as_text and purpose = "ascii ''abc''" and extra = "[]"
      and docType = TTr]
  have 9: "proofreadWithAI toLowerCase_ascii random_zero (Some sample_key) model_answers (ascii ''abc'') (fresh_io 0)
     = (Inr (ascii ''Ok''), \<lparr>remote = 1, invocations = 1, waits = []\<rparr>)"
    using a [THEN conjunct2, THEN conjunct2, THEN conjunct1] by (simp add: answers trim)
  from 1 2 3 4 5 6 7 8 9 show ?thesis by (intro conjI)
qed

section \<open>Editing the document: properties\<close>

text \<open>
  Claim C5. For every document, every index \<open>i\<close> of one of its pages and every new raw
  text, \<open>handlePageContentChange\<close> sets the raw text of page \<open>i\<close>, clears its two
  derived texts and keeps its identifier; every other page, and every other field of the
  document, is as before.
\<close>

theorem page_edit_frame:
  assumes "i < length (pages prev)"
  shows "\<exists>next. handlePageContentChange i newRaw prev = Some next
    \<and> length (pages next) = length (pages prev)
    \<and> page_id (pages next ! i) = page_id (pages prev ! i)
    \<and> rawContent (pages next ! i) = newRaw
    \<and> processedContent (pages next ! i) = []
    \<and> formattedContent (pages next ! i) = []
    \<and> (\<forall>j. j < length (pages prev) \<and> j \<noteq> i \<longrightarrow> pages next ! j = pages prev ! j)
    \<and> next\<lparr>pages := pages prev\<rparr> = prev"
  using assms by (simp add: handlePageContentChange_def assignPage_def)

text \<open>
  Claim C5 at the second page of a document of two pages.
\<close>

theorem page_edit_frame_witness:
  "\<exists>next. handlePageContentChange 1 (ascii ''new'') sample_doc = Some next
    \<and> pages next = [page_a, page_b\<lparr>rawContent := ascii ''new'', processedContent := [],
                                    formattedContent := []\<rparr>]"
proof -
  have "(1::nat) < length (pages sample_doc)" by (simp add: sample_doc_def)
  from page_edit_frame [OF this, of "ascii ''new''"]
  obtain n where n: "handlePageContentChange 1 (ascii ''new'') sample_doc = Some n"
    "length (pages n) = length (pages sample_doc)"
    "page_id (pages n ! 1) = page_id (pages sample_doc ! 1)"
    "rawContent (pages n ! 1) = ascii ''new''"
    "processedContent (pages n ! 1) = []" "formattedContent (pages n ! 1) = []"
    "\<forall>j. j < length (pages sample_doc) \<and> j \<noteq> 1 \<longrightarrow> pages n ! j = pages sample_doc ! j"
    by blast
  from n(7) have 0: "pages n ! 0 = page_a" by (simp add: sample_doc_def)
  from n(2) have len: "length (pages n) = 2" by (simp add: sample_doc_def)
  have 1: "pages n ! 1 = page_b\<lparr>rawContent := ascii ''new'', processedContent := [],
                                    formattedContent := []\<rparr>"
    using n(3-6) by (simp add: sample_doc_def page_b_def)
  from len obtain x y where xy: "pages n = [x, y]"
    by (cases "pages n"; simp) (metis length_0_conv length_Suc_conv Suc_1 Suc_inject)
  with 0 1 n(1) show ?thesis by simp
qed

section \<open>The list of uploaded files: properties\<close>

lemma count_list_filter:
  "count_list (filter P xs) x = (if P x then count_list xs x else 0)"
  by (induction xs) auto

text \<open>
  Claim C9. \<open>removeFile\<close> yields a list without any entry of the given identifier, in
  which every other entry occurs as often as before and in the original order (the
  result is a subsequence of the list, shorter by the number of entries that had the
  identifier); a list without the identifier is returned as it is.
\<close>

theorem remove_file:
  "(\<forall>f \<in> set (removeFile i files). file_id f \<noteq> i)
   \<and> subseq (removeFile i files) files
   \<and> (\<forall>f. file_id f \<noteq> i \<longrightarrow> count_list (removeFile i files) f = count_list files f)
   \<and> length (removeFile i files) + length (filter (\<lambda>f. file_id f = i) files) = length files
   \<and> ((\<forall>f \<in> set files. file_id f \<noteq> i) \<longrightarrow> removeFile i files = files)"
proof (intro conjI)
  show "\<forall>f \<in> set (removeFile i files). file_id f \<noteq> i" by (simp add: removeFile_def)
  show "subseq (removeFile i files) files" by (simp add: removeFile_def)
  show "\<forall>f. file_id f \<noteq> i \<longrightarrow> count_list (removeFile i files) f = count_list files f"
    by (simp add: removeFile_def count_list_filter)
  show "length (removeFile i files) + length (filter (\<lambda>f. file_id f = i) files) = length files"
    using sum_length_filter_compl [of "\<lambda>f. file_id f = i" files] by (simp add: removeFile_def)
  show "(\<forall>f \<in> set files. file_id f \<noteq> i) \<longrightarrow> removeFile i files = files"
    by (simp add: removeFile_def)
qed

text \<open>
  Claim C9 at a list of three files: removing the middle one, and removing an identifier
  that is not there.
\<close>

theorem remove_file_witness:
  "file_b \<notin> set (removeFile (ascii ''b'') [file_a, file_b, file_c])
   \<and> count_list (removeFile (ascii ''b'') [file_a, file_b, file_c]) file_a = 1
   \<and> count_list (removeFile (ascii ''b'') [file_a, file_b, file_c]) file_c = 1
   \<and> length (removeFile (ascii ''b'') [file_a, file_b, file_c]) = 2
   \<and> removeFile (ascii ''z'') [file_a, file_b, file_c] = [file_a, file_b, file_c]"
proof -
  have ids: "file_id file_a = ascii ''a''" "file_id file_b = ascii ''b''"
    "file_id file_c = ascii ''c''"
    by (simp_all add: file_a_def file_b_def file_c_def)
  have ne: "ascii ''a'' \<noteq> ascii ''b''" "ascii ''c'' \<noteq> ascii ''b''" "ascii ''a'' \<noteq> ascii ''z''"
    "ascii ''b'' \<noteq> ascii ''z''" "ascii ''c'' \<noteq> ascii ''z''" "ascii ''a'' \<noteq> ascii ''c''"
    by (simp_all add: ascii_def)
  have d: "file_a \<noteq> file_b" "file_a \<noteq> file_c" "file_c \<noteq> file_b"
    using ids ne by auto
  note t = remove_file [of "ascii ''b''" "[file_a, file_b, file_c]"]
  from t ids have 0: "file_b \<notin> set (removeFile (ascii ''b'') [file_a, file_b, file_c])"
    by auto
  from t ids ne d have 1: "count_list (removeFile (ascii ''b'') [file_a, file_b, file_c]) file_a = 1"
    by simp
  from t ids ne d have 2: "count_list (removeFile (ascii ''b'') [file_a, file_b, file_c]) file_c = 1"
    by auto
  from t ids ne have 3: "length (removeFile (ascii ''b'') [file_a, file_b, file_c]) = 2"
    by simp
  from remove_file [of "ascii ''z''" "[file_a, file_b, file_c]"] ids ne
  have 4: "removeFile (ascii ''z'') [file_a, file_b, file_c] = [file_a, file_b, file_c]"
    by simp
  from 0 1 2 3 4 show ?thesis by (intro conjI)
qed

section \<open>The page-processing effect: properties\<close>

lemma findIndex_Some_iff:
  "Array_findIndex p xs = Some i \<longleftrightarrow> i < length xs \<and> p (xs ! i) \<and> (\<forall>j<i. \<not> p (xs ! j))"
proof (induction xs arbitrary: i)
  case Nil
  then show ?case by simp
next
  case (Cons x xs)
  show ?case
  proof (cases "p x")
    case True
    then show ?thesis by (cases i) auto
  next
    case False
    show ?thesis
    proof (cases i)
      case 0
      with False show ?thesis by simp
    next
      case (Suc k)
      with False Cons.IH [of k] show ?thesis
        by (auto simp: less_Suc_eq_0_disj)
    qed
  qed
qed

lemma findIndex_None_iff: "Array_findIndex p xs = None \<longleftrightarrow> (\<forall>x \<in> set xs. \<not> p x)"
  by (induction xs) auto

lemma needs_a: "needs_processing page_a"
  by (simp add: needs_processing_def page_a_def String_trim_def isWhiteSpace_def ascii_def)

text \<open>
  Claim C6 says that at most one page is in flight at a time. Starting with one
  unprocessed page and the timer pending: a second page is added and given text, the
  timer fires and a first callback starts on page 0; its formalize call resolves, which
  changes the pages and sets the timer again; the timer fires while the first callback
  awaits the formatting, and a second callback starts on page 1. Pages 0 and 1 are in
  flight together, and the single index holds only the later one.
\<close>

theorem overlapping_cycles_counterexample:
  "map_option in_flight (run overlapping_cycles one_page_app) = Some [0, 1]
   \<and> map_option processingPageIndex (run overlapping_cycles one_page_app) = Some (Some 1)"
  by (simp add: overlapping_cycles_def one_page_app_def sample_doc_def page_a_def
      handleAddPage_def handlePageContentChange_def assignPage_def setPage_def effect_def
      needs_processing_def String_trim_def isWhiteSpace_def ascii_def in_flight_def)


text \<open>
  Claim C6, amended. When a processing cycle starts (the debounce timer fires), it
  starts at most one page: the first page whose raw text is not empty after trimming and
  whose processed text is empty becomes the page of the single nullable index and of a
  new callback awaiting the formalize call; if there is no such page, nothing is started
  and the index is left as it is. The document is not changed by the start. Callbacks
  started earlier stay in flight.
\<close>

theorem cycle_start:
  assumes "step Timeout app = Some app'"
  shows "docData app' = docData app
    \<and> (\<forall>i. i < length (pages (docData app)) \<and> needs_processing (pages (docData app) ! i)
            \<and> (\<forall>j<i. \<not> needs_processing (pages (docData app) ! j))
         \<longrightarrow> processingPageIndex app' = Some i
             \<and> running app' = running app @ [\<lparr>pageToProcessIndex = i, suspended_at = Formalize\<rparr>])
    \<and> ((\<forall>p \<in> set (pages (docData app)). \<not> needs_processing p)
         \<longrightarrow> processingPageIndex app' = processingPageIndex app \<and> running app' = running app)
    \<and> length (in_flight app') \<le> length (in_flight app) + 1"
proof (cases "Array_findIndex needs_processing (pages (docData app))")
  case None
  with assms have app': "app' = app\<lparr>debounce_pending := False\<rparr>"
    by (simp split: if_splits)
  from None have "\<forall>p \<in> set (pages (docData app)). \<not> needs_processing p"
    by (simp add: findIndex_None_iff)
  then have "\<not> (i < length (pages (docData app)) \<and> needs_processing (pages (docData app) ! i))" for i
    by auto
  with app' show ?thesis by (auto simp: in_flight_def)
next
  case (Some k)
  with assms have app': "app' = app\<lparr>debounce_pending := False, processingPageIndex := Some k,
      running := running app @ [\<lparr>pageToProcessIndex = k, suspended_at = Formalize\<rparr>]\<rparr>"
    by (simp split: if_splits)
  from Some have k: "k < length (pages (docData app))" "needs_processing (pages (docData app) ! k)"
    "\<forall>j<k. \<not> needs_processing (pages (docData app) ! j)"
    by (simp_all add: findIndex_Some_iff)
  have uniq: "i = k" if "i < length (pages (docData app))"
    "needs_processing (pages (docData app) ! i)"
    "\<forall>j<i. \<not> needs_processing (pages (docData app) ! j)" for i
    using that k by (meson linorder_neqE_nat)
  have some: "\<not> (\<forall>p \<in> set (pages (docData app)). \<not> needs_processing p)"
    using k(1,2) by (meson nth_mem)
  from app' uniq some show ?thesis by (auto simp: in_flight_def)
qed

text \<open>
  Claim C6, amended, at a document whose only page is unprocessed and at one whose only
  page is processed.
\<close>

theorem cycle_start_witness:
  "(\<exists>app'. step Timeout one_page_app = Some app' \<and> processingPageIndex app' = Some 0
       \<and> running app' = [\<lparr>pageToProcessIndex = 0, suspended_at = Formalize\<rparr>])
   \<and> (\<exists>app'. step Timeout processed_app = Some app' \<and> processingPageIndex app' = None
       \<and> running app' = [])"
proof -
  have "\<exists>a. step Timeout one_page_app = Some a"
    by (simp add: one_page_app_def needs_a)
  then obtain a where a: "step Timeout one_page_app = Some a" ..
  have pa: "pages (docData one_page_app) = [page_a]" by (simp add: one_page_app_def)
  from cycle_start [OF a] pa needs_a
  have 1: "processingPageIndex a = Some 0
      \<and> running a = [\<lparr>pageToProcessIndex = 0, suspended_at = Formalize\<rparr>]"
    by (simp add: one_page_app_def)
  have nb: "\<not> needs_processing page_b"
    by (simp add: needs_processing_def page_b_def ascii_def)
  have "\<exists>b. step Timeout processed_app = Some b"
    by (simp add: processed_app_def nb)
  then obtain b where b: "step Timeout processed_app = Some b" ..
  have pb: "pages (docData processed_app) = [page_b]" by (simp add: processed_app_def)
  from cycle_start [OF b] pb nb
  have 2: "processingPageIndex b = None \<and> running b = []"
    by (simp add: processed_app_def)
  from a 1 b 2 show ?thesis by blast
qed

section \<open>The issuing authority: properties\<close>






















end
